theory Spec2Isabelle
  imports Main "HOL-Library.Word" "HOL-Library.Multiset" "HOL-Library.Signed_Division"
begin

section \<open>Values shared by the demonstration programs\<close>

text \<open>
  The programs are separate executables; each is a \<open>main\<close> that builds a standard
  container, calls library operations on it and prints. The element type of every vector
  below is C++ \<open>int\<close>, taken as a 32-bit two's complement word: \<open>+\<close> wraps, \<open>sint\<close>
  reads the signed value, and \<open>operator<\<close> on \<open>int\<close> is the signed order \<open><s\<close>.
  The C++ abstract machine leaves signed overflow undefined; the wrap-around is what the
  two's complement targets compute, and the theorems below say where it sets in.

  The library routines (\<open>std::sort\<close>, \<open>std::remove\<close>, \<open>std::accumulate\<close>,
  \<open>std::partial_sum\<close>, the containers' \<open>at\<close>, the file streams) are part of the
  language, not of the repository. Each is written here as the algorithm the C++ standard
  gives for it, on lists in place of iterator ranges, an iterator being an index.
\<close>

type_synonym int32 = "32 word"

section \<open>algorithm.cpp\<close>

subsection \<open>\<open>std::sort(first, last)\<close>\<close>

text \<open>
  The standard fixes the result of \<open>std::sort\<close> (the range in non-descending order
  under \<open>operator<\<close>), not the algorithm. The model is the insertion sort that the
  library's own small-range path runs: every element in turn is moved left past the
  elements greater than it. \<open>insert_sorted\<close> compares with \<open><s\<close>, as \<open>operator<\<close> on
  \<open>int\<close> does.
\<close>

fun insert_sorted :: "int32 \<Rightarrow> int32 list \<Rightarrow> int32 list" where
  "insert_sorted x [] = [x]"
| "insert_sorted x (y # ys) = (if x <s y then x # y # ys else y # insert_sorted x ys)"

definition std_sort :: "int32 list \<Rightarrow> int32 list" where
  "std_sort xs = foldl (\<lambda>sorted_part x. insert_sorted x sorted_part) [] xs"

text \<open>Line 115: \<open>std::vector<int> sortVec = {8, 1, 4, 3, 7, 2, 5, 6};\<close>\<close>

definition sortVec :: "int32 list" where
  "sortVec = [8, 1, 4, 3, 7, 2, 5, 6]"

subsection \<open>\<open>std::find\<close>, \<open>std::remove\<close> and \<open>vector::erase\<close>\<close>

text \<open>
  \<open>std::find(first, last, value)\<close>: the position of the first element equal to
  \<open>value\<close>, or \<open>last\<close> (the length) when there is none.
\<close>

fun std_find :: "int32 list \<Rightarrow> int32 \<Rightarrow> nat" where
  "std_find [] v = 0"
| "std_find (x # xs) v = (if x = v then 0 else Suc (std_find xs v))"

text \<open>
  \<open>std::remove(first, last, value)\<close> works in place:
  \<^verbatim>\<open>
  first = std::find(first, last, value);
  if (first == last) return first;
  result = first; ++first;
  for (; first != last; ++first)
    if (!( *first == value)) { *result = std::move( *first); ++result; }
  return result;
  \<close>
  \<open>remove_loop\<close> is the \<open>for\<close> loop: \<open>result\<close> is the write position, \<open>first\<close> the
  read position. \<open>first\<close> never passes \<open>last\<close>, so \<open>first != last\<close> is
  \<open>first < length xs\<close>. The vector keeps its length; the elements from the returned
  position on are left over.
\<close>

function remove_loop :: "int32 \<Rightarrow> int32 list \<Rightarrow> nat \<Rightarrow> nat \<Rightarrow> int32 list \<times> nat" where
  "remove_loop v xs result first =
     (if first < length xs
      then if xs ! first \<noteq> v
           then remove_loop v (xs[result := xs ! first]) (Suc result) (Suc first)
           else remove_loop v xs result (Suc first)
      else (xs, result))"
  by pat_completeness auto
termination
  by (relation "measure (\<lambda>(v, xs, result, first). length xs - first)") auto

definition std_remove :: "int32 list \<Rightarrow> int32 \<Rightarrow> int32 list \<times> nat" where
  "std_remove xs v =
     (let first = std_find xs v
      in if first = length xs then (xs, first) else remove_loop v xs first (Suc first))"

text \<open>\<open>vector::erase(first, last)\<close> drops the positions \<open>first\<close> up to \<open>last\<close>.\<close>

definition erase_range :: "int32 list \<Rightarrow> nat \<Rightarrow> nat \<Rightarrow> int32 list" where
  "erase_range xs first_it last_it = take first_it xs @ drop last_it xs"

text \<open>
  Lines 94 to 96, the idiom:
  \<^verbatim>\<open>
  auto new_end_it = std::remove(removeVec.begin(), removeVec.end(), 2);
  removeVec.erase(new_end_it, removeVec.end());
  \<close>
\<close>

definition remove_erase :: "int32 list \<Rightarrow> int32 \<Rightarrow> int32 list" where
  "remove_erase xs v =
     (case std_remove xs v of (ys, new_end_it) \<Rightarrow> erase_range ys new_end_it (length ys))"

definition removeVec :: "int32 list" where
  "removeVec = [1, 2, 3, 2, 4, 5, 2]"

section \<open>numeric.cpp\<close>

text \<open>
  \<open>std::accumulate(first, last, init)\<close>: \<open>acc = init\<close>, then \<open>acc = acc + *i\<close> for
  every position in order. With \<open>init\<close> the \<open>int\<close> literal 0 the accumulator is an
  \<open>int\<close>.
\<close>

fun accumulate :: "int32 list \<Rightarrow> int32 \<Rightarrow> int32" where
  "accumulate [] acc = acc"
| "accumulate (x # xs) acc = accumulate xs (acc + x)"

text \<open>
  \<open>std::partial_sum(first, last, d_first)\<close>:
  \<^verbatim>\<open>
  if (first == last) return d_first;
  sum = *first; *d_first = sum;
  while (++first != last) { sum = sum + *first; *++d_first = sum; }
  return ++d_first;
  \<close>
  \<open>partial_sum_loop\<close> is the \<open>while\<close> loop (\<open>acc\<close> is the source's \<open>sum\<close>) and
  yields the values it writes;
  \<open>partial_sum\<close> yields every value written through \<open>d_first\<close>, in order.
\<close>

fun partial_sum_loop :: "int32 \<Rightarrow> int32 list \<Rightarrow> int32 list" where
  "partial_sum_loop acc [] = []"
| "partial_sum_loop acc (x # xs) = (acc + x) # partial_sum_loop (acc + x) xs"

fun partial_sum :: "int32 list \<Rightarrow> int32 list" where
  "partial_sum [] = []"
| "partial_sum (x # xs) = x # partial_sum_loop x xs"

text \<open>
  Writing \<open>out\<close> through an iterator that starts at \<open>dest.begin()\<close> overwrites the
  first \<open>length out\<close> elements of \<open>dest\<close>. Lines 45 and 46 size the destination by the
  input, \<open>std::vector<int> partialSumVec(myVec.size())\<close>, all zero, and fill it.
\<close>

definition write_from_begin :: "int32 list \<Rightarrow> int32 list \<Rightarrow> int32 list" where
  "write_from_begin out dest = out @ drop (length out) dest"

definition partialSumVec :: "int32 list \<Rightarrow> int32 list" where
  "partialSumVec src = write_from_begin (partial_sum src) (replicate (length src) 0)"

definition myVec :: "int32 list" where
  "myVec = [1, 2, 3, 4, 5]"

text \<open>
  The range of \<open>int\<close>, and the additions of \<open>std::accumulate\<close> read as sums of
  integers: \<open>additions_defined acc xs\<close> holds when no \<open>acc + *i\<close> of the loop leaves the
  range, which is when the language defines the result.
\<close>

definition int_representable :: "int \<Rightarrow> bool" where
  "int_representable n = (- (2 ^ 31) \<le> n \<and> n < 2 ^ 31)"

fun additions_defined :: "int \<Rightarrow> int32 list \<Rightarrow> bool" where
  "additions_defined acc [] = True"
| "additions_defined acc (x # xs) =
     (int_representable (acc + sint x) \<and> additions_defined (acc + sint x) xs)"

section \<open>Output, exceptions and handlers\<close>

text \<open>
  What a run does is a trace of events: a value inserted into \<open>std::cout\<close> or
  \<open>std::cerr\<close>, an exception thrown, an exception caught by a handler. A statement or
  an expression is the trace it leaves together with its outcome: \<open>Inr\<close> the value of
  normal completion, \<open>Inl\<close> the exception that leaves it.
\<close>

datatype ostream = Cout | Cerr

datatype exception_class =
  Std_exception | Logic_error | Out_of_range | Future_error | Runtime_error | Bad_optional_access

text \<open>
  The classes a thrown object can be caught as: its own class, then its bases, as
  \<open><stdexcept>\<close>, \<open><optional>\<close> and \<open><future>\<close> declare them.
\<close>

fun caught_as :: "exception_class \<Rightarrow> exception_class list" where
  "caught_as Std_exception = [Std_exception]"
| "caught_as Logic_error = [Logic_error, Std_exception]"
| "caught_as Out_of_range = [Out_of_range, Logic_error, Std_exception]"
| "caught_as Future_error = [Future_error, Logic_error, Std_exception]"
| "caught_as Runtime_error = [Runtime_error, Std_exception]"
| "caught_as Bad_optional_access = [Bad_optional_access, Std_exception]"

text \<open>
  An exception object: its class and the text of \<open>what()\<close>. The text of an exception
  that the library throws is the implementation's choice (\<open>None\<close>).
\<close>

datatype exn = Exn (class_of: exception_class) (what: "string option")

datatype item = Str string | Num int | Chr char | Library_text

fun what_item :: "exn \<Rightarrow> item" where
  "what_item (Exn c (Some text)) = Str text"
| "what_item (Exn c None) = Library_text"

datatype event = Write ostream item | Throw exn | Catch exn

type_synonym 'a comp = "event list \<times> (exn + 'a)"

definition yield :: "'a \<Rightarrow> 'a comp" where
  "yield x = ([], Inr x)"

definition raise :: "exn \<Rightarrow> 'a comp" where
  "raise e = ([Throw e], Inl e)"

text \<open>
  \<open>s << e1 << e2 << ...\<close>: the operands are evaluated and inserted from left to right
  (C++17 sequences the left operand of \<open><<\<close> before the right one); an operand that
  throws ends the statement with what was inserted before it.
\<close>

fun insertions :: "ostream \<Rightarrow> item comp list \<Rightarrow> unit comp" where
  "insertions s [] = yield ()"
| "insertions s (e # es) =
     (case e of
        (t, Inl x) \<Rightarrow> (t, Inl x)
      | (t, Inr i) \<Rightarrow> (case insertions s es of (t', r) \<Rightarrow> (t @ Write s i # t', r)))"

text \<open>A sequence of statements: the first exception ends it.\<close>

fun statements :: "unit comp list \<Rightarrow> unit comp" where
  "statements [] = yield ()"
| "statements (c # cs) =
     (case c of
        (t, Inl x) \<Rightarrow> (t, Inl x)
      | (t, Inr u) \<Rightarrow> (case statements cs of (t', r) \<Rightarrow> (t @ t', r)))"

text \<open>
  \<open>try { body } catch (const C& e) { handler }\<close>: an exception of the body whose class
  is \<open>C\<close> or derives from it enters the handler; any other passes through.
  \<open>try_catch_all\<close> is \<open>catch (...)\<close>.
\<close>

definition try_catch :: "unit comp \<Rightarrow> exception_class \<Rightarrow> (exn \<Rightarrow> unit comp) \<Rightarrow> unit comp" where
  "try_catch body c handler =
     (case body of
        (t, Inr u) \<Rightarrow> (t, Inr u)
      | (t, Inl e) \<Rightarrow>
          if c \<in> set (caught_as (class_of e))
          then (case handler e of (t', r) \<Rightarrow> (t @ Catch e # t', r))
          else (t, Inl e))"

definition try_catch_all :: "'a comp \<Rightarrow> (exn \<Rightarrow> 'a comp) \<Rightarrow> 'a comp" where
  "try_catch_all body handler =
     (case body of
        (t, Inr u) \<Rightarrow> (t, Inr u)
      | (t, Inl e) \<Rightarrow> (case handler e of (t', r) \<Rightarrow> (t @ Catch e # t', r)))"

text \<open>Operands of \<open><<\<close>: a string literal, a value that cannot throw, a value that can.\<close>

definition lit :: "string \<Rightarrow> item comp" where
  "lit s = yield (Str s)"

definition num_item :: "int32 \<Rightarrow> item comp" where
  "num_item n = yield (Num (sint n))"

definition size_item :: "nat \<Rightarrow> item comp" where
  "size_item n = yield (Num (int n))"

definition chr_item :: "char \<Rightarrow> item comp" where
  "chr_item c = yield (Chr c)"

definition as_num :: "int32 comp \<Rightarrow> item comp" where
  "as_num c = (case c of (t, Inl x) \<Rightarrow> (t, Inl x) | (t, Inr n) \<Rightarrow> (t, Inr (Num (sint n))))"

definition as_chr :: "char comp \<Rightarrow> item comp" where
  "as_chr c = (case c of (t, Inl x) \<Rightarrow> (t, Inl x) | (t, Inr k) \<Rightarrow> (t, Inr (Chr k)))"

definition as_str :: "string comp \<Rightarrow> item comp" where
  "as_str c = (case c of (t, Inl x) \<Rightarrow> (t, Inl x) | (t, Inr k) \<Rightarrow> (t, Inr (Str k)))"

text \<open>With \<open>std::boolalpha\<close> set a \<open>bool\<close> is inserted as a word.\<close>

definition boolalpha :: "bool \<Rightarrow> item comp" where
  "boolalpha b = yield (Str (if b then ''true'' else ''false''))"

text \<open>What a trace shows of exceptions, and normal completion.\<close>

fun thrown_in :: "event list \<Rightarrow> exn list" where
  "thrown_in [] = []"
| "thrown_in (Throw e # t) = e # thrown_in t"
| "thrown_in (ev # t) = thrown_in t"

fun caught_in :: "event list \<Rightarrow> exn list" where
  "caught_in [] = []"
| "caught_in (Catch e # t) = e # caught_in t"
| "caught_in (ev # t) = caught_in t"

fun written_to :: "ostream \<Rightarrow> event list \<Rightarrow> item list" where
  "written_to s [] = []"
| "written_to s (Write s' i # t) = (if s' = s then i # written_to s t else written_to s t)"
| "written_to s (ev # t) = written_to s t"

definition thrown :: "unit comp \<Rightarrow> exn list" where
  "thrown c = thrown_in (fst c)"

definition caught :: "unit comp \<Rightarrow> exn list" where
  "caught c = caught_in (fst c)"

definition completes :: "unit comp \<Rightarrow> bool" where
  "completes c = (snd c = Inr ())"

text \<open>
  The behaviour claimed of a demonstration of checked access: an \<open>at()\<close> out of range
  is performed and throws \<open>std::out_of_range\<close>, a handler catches it, and the run
  goes on to its normal end.
\<close>

definition out_of_range_thrown_and_caught :: "unit comp \<Rightarrow> bool" where
  "out_of_range_thrown_and_caught c =
     (Exn Out_of_range None \<in> set (thrown c) \<and> Exn Out_of_range None \<in> set (caught c)
      \<and> completes c)"

section \<open>Checked element access\<close>

text \<open>
  \<open>at(n)\<close> of \<open>std::vector\<close>, \<open>std::array\<close> and \<open>std::string_view\<close> throws
  \<open>std::out_of_range\<close> unless \<open>n < size()\<close>; \<open>at(key)\<close> of \<open>std::map\<close> and
  \<open>std::unordered_map\<close> throws it unless the key is present. \<open>operator[]\<close>,
  \<open>front()\<close>, \<open>back()\<close> and \<open>*(data() + n)\<close> do not check: they are only used on
  positions that exist, and the model reads the list there.
\<close>

definition vector_at :: "int32 list \<Rightarrow> nat \<Rightarrow> int32 comp" where
  "vector_at v n = (if n < length v then yield (v ! n) else raise (Exn Out_of_range None))"

definition array_at :: "int32 list \<Rightarrow> nat \<Rightarrow> int32 comp" where
  "array_at a n = (if n < length a then yield (a ! n) else raise (Exn Out_of_range None))"

definition string_view_at :: "string \<Rightarrow> nat \<Rightarrow> char comp" where
  "string_view_at sv pos =
     (if pos < length sv then yield (sv ! pos) else raise (Exn Out_of_range None))"

text \<open>
  A \<open>std::map<std::string, int>\<close> or \<open>std::unordered_map<std::string, int>\<close> as the
  list of its pairs, one per key. \<open>insert\<close> leaves a key that is present alone;
  \<open>m[key] = v\<close> overwrites it or adds the pair.
\<close>

type_synonym string_int_map = "(string \<times> int32) list"

fun map_insert :: "string_int_map \<Rightarrow> string \<times> int32 \<Rightarrow> string_int_map" where
  "map_insert [] kv = [kv]"
| "map_insert (p # ps) kv = (if fst p = fst kv then p # ps else p # map_insert ps kv)"

fun map_assign :: "string_int_map \<Rightarrow> string \<Rightarrow> int32 \<Rightarrow> string_int_map" where
  "map_assign [] k v = [(k, v)]"
| "map_assign (p # ps) k v = (if fst p = k then (k, v) # ps else p # map_assign ps k v)"

definition map_at :: "string_int_map \<Rightarrow> string \<Rightarrow> int32 comp" where
  "map_at m k = (case map_of m k of Some v \<Rightarrow> yield v | None \<Rightarrow> raise (Exn Out_of_range None))"

subsection \<open>vector.cpp, part 2\<close>

text \<open>
  Part 1 leaves \<open>myVector\<close> with the elements pushed by the loop
  \<open>for (int i = 0; i < 5; ++i) myVector.push_back(i * 10)\<close>; \<open>reserve\<close> and
  \<open>shrink_to_fit\<close> change the capacity only. The call \<open>myVector.at(10)\<close> stands in a
  comment (line 68), so the \<open>try\<close> block holds the access at index 2 alone.
\<close>

definition push_back :: "int32 list \<Rightarrow> int32 \<Rightarrow> int32 list" where
  "push_back v x = v @ [x]"

definition myVector :: "int32 list" where
  "myVector = foldl (\<lambda>v i. push_back v (i * 10)) [] [0, 1, 2, 3, 4]"

definition vector_element_access :: "unit comp" where
  "vector_element_access = statements
     [insertions Cout [lit ''--- Part 2: Element Access ---\<newline>''],
      try_catch
        (insertions Cout
           [lit ''Element at index 2 (using at()): '', as_num (vector_at myVector 2),
            lit ''\<newline>''])
        Out_of_range
        (\<lambda>e. insertions Cerr [lit ''Caught exception: '', yield (what_item e), lit ''\<newline>'']),
      insertions Cout
        [lit ''Element at index 2 (using []): '', num_item (myVector ! 2), lit ''\<newline>''],
      insertions Cout
        [lit ''First element (using front()): '', num_item (hd myVector), lit ''\<newline>''],
      insertions Cout
        [lit ''Last element (using back()): '', num_item (last myVector), lit ''\<newline>''],
      insertions Cout
        [lit ''Element at index 2 using pointer: '', num_item (myVector ! 2), lit ''\<newline>''],
      insertions Cout [lit ''--------------------------------\<newline>\<newline>'']]"

subsection \<open>array.cpp, part 2\<close>

text \<open>
  \<open>std::array<int, 5> myArray = {10, 20, 30, 40, 50}\<close>; the call \<open>myArray.at(10)\<close>
  stands in a comment (line 36).
\<close>

definition myArray :: "int32 list" where
  "myArray = [10, 20, 30, 40, 50]"

definition array_element_access :: "unit comp" where
  "array_element_access = statements
     [try_catch
        (insertions Cout
           [lit ''Element at index 2 (using at()): '', as_num (array_at myArray 2),
            lit ''\<newline>''])
        Out_of_range
        (\<lambda>e. insertions Cerr [lit ''Caught exception: '', yield (what_item e), lit ''\<newline>'']),
      insertions Cout
        [lit ''Element at index 2 (using []): '', num_item (myArray ! 2), lit ''\<newline>''],
      insertions Cout
        [lit ''First element (using front()): '', num_item (hd myArray), lit ''\<newline>''],
      insertions Cout
        [lit ''Last element (using back()): '', num_item (last myArray), lit ''\<newline>''],
      insertions Cout
        [lit ''Element at index 2 using data() pointer: '', num_item (myArray ! 2),
         lit ''\<newline>\<newline>'']]"

subsection \<open>map.cpp, part 2\<close>

text \<open>
  Part 1 of map.cpp inserts apple, banana and cherry and then assigns durian and apple
  through \<open>operator[]\<close>. The call \<open>myMap.at("grape")\<close> stands in a comment (line 38).
\<close>

definition map_myMap :: "string_int_map" where
  "map_myMap =
     map_assign
       (map_assign
          (map_insert (map_insert (map_insert [] (''apple'', 1)) (''banana'', 2)) (''cherry'', 3))
          ''durian'' 4)
       ''apple'' 5"

definition map_element_access :: "unit comp" where
  "map_element_access = statements
     [try_catch
        (insertions Cout
           [lit ''Value for 'apple' (using at()): '', as_num (map_at map_myMap ''apple''),
            lit ''\<newline>''])
        Out_of_range
        (\<lambda>e. insertions Cerr [lit ''Caught exception: '', yield (what_item e), lit ''\<newline>'']),
      (if map_myMap \<noteq> [] then insertions Cout [lit ''The map is not empty.\<newline>'']
       else yield ()),
      insertions Cout
        [lit ''The current number of elements in the map is: '', size_item (length map_myMap),
         lit ''\<newline>\<newline>'']]"

subsection \<open>unordered_map.cpp, part 2\<close>

text \<open>
  Part 1 of unordered_map.cpp does the same insertions and assignments and then
  \<open>myMap.emplace("elderberry", 6)\<close>, which inserts like \<open>insert\<close>. The call
  \<open>myMap.at("grape")\<close> stands in a comment (line 48).
\<close>

definition unordered_map_myMap :: "string_int_map" where
  "unordered_map_myMap = map_insert map_myMap (''elderberry'', 6)"

definition unordered_map_element_access :: "unit comp" where
  "unordered_map_element_access = statements
     [insertions Cout [lit ''--- Part 2: Element Access and Capacity ---\<newline>''],
      try_catch
        (insertions Cout
           [lit ''Value for 'apple' (using at()): '',
            as_num (map_at unordered_map_myMap ''apple''), lit ''\<newline>''])
        Out_of_range
        (\<lambda>e. insertions Cerr [lit ''Caught exception: '', yield (what_item e), lit ''\<newline>'']),
      (if unordered_map_myMap \<noteq> []
       then insertions Cout [lit ''The map is not empty.\<newline>''] else yield ()),
      insertions Cout
        [lit ''The current number of elements in the map is: '',
         size_item (length unordered_map_myMap), lit ''\<newline>\<newline>'']]"

subsection \<open>string_view.cpp\<close>

text \<open>
  A \<open>std::string_view\<close> is the character sequence it refers to; none of the views of
  this program outlives its characters. \<open>substr(pos, n)\<close> throws \<open>std::out_of_range\<close>
  when \<open>pos > size()\<close>; \<open>find\<close> returns the first position where the argument starts
  (\<open>npos\<close> is \<open>None\<close>); \<open>compare\<close> returns zero for equal views and a negative or a
  positive number otherwise, of which the standard fixes the sign only.
  \<open>remove_prefix(n)\<close> and \<open>remove_suffix(n)\<close> require \<open>n \<le> size()\<close>, which holds
  where the program calls them.
\<close>

definition sv_substr :: "string \<Rightarrow> nat \<Rightarrow> nat \<Rightarrow> string comp" where
  "sv_substr sv pos n =
     (if pos > length sv then raise (Exn Out_of_range None) else yield (take n (drop pos sv)))"

fun sv_find :: "string \<Rightarrow> string \<Rightarrow> nat option" where
  "sv_find [] str = (if str = [] then Some 0 else None)"
| "sv_find (c # cs) str =
     (if take (length str) (c # cs) = str then Some 0 else map_option Suc (sv_find cs str))"

definition starts_with :: "string \<Rightarrow> string \<Rightarrow> bool" where
  "starts_with sv x = (take (length x) sv = x)"

definition ends_with :: "string \<Rightarrow> string \<Rightarrow> bool" where
  "ends_with sv x = (length x \<le> length sv \<and> drop (length sv - length x) sv = x)"

fun sv_compare :: "string \<Rightarrow> string \<Rightarrow> int" where
  "sv_compare [] [] = 0"
| "sv_compare [] (d # ds) = - 1"
| "sv_compare (c # cs) [] = 1"
| "sv_compare (c # cs) (d # ds) =
     (if (of_char c :: nat) < of_char d then - 1
      else if (of_char d :: nat) < of_char c then 1
      else sv_compare cs ds)"

definition remove_prefix :: "string \<Rightarrow> nat \<Rightarrow> string" where
  "remove_prefix sv n = drop n sv"

definition remove_suffix :: "string \<Rightarrow> nat \<Rightarrow> string" where
  "remove_suffix sv n = take (length sv - n) sv"

text \<open>The character \<open>'\<close>, for the string literals that begin or end with it.\<close>

definition quote :: string where
  "quote = [CHR 0x27]"

definition dashes :: "unit comp" where
  "dashes = insertions Cout [lit ''-----------------------------------------\<newline>'']"

definition string_view_part1 :: "unit comp" where
  "string_view_part1 =
     (let my_string = ''Hello, C++17!'';
          sv1 = ''A literal string.'';
          sv2 = my_string;
          empty_view = ''''
      in statements
        [insertions Cout [lit ''--- Part 1: Constructors and Initialization ---\<newline>''],
         insertions Cout [lit (''sv1 (from literal): '' @ quote), lit sv1, lit (quote @ ''\<newline>'')],
         insertions Cout [lit (''sv2 (from std::string): '' @ quote), lit sv2, lit (quote @ ''\<newline>'')],
         insertions Cout [lit (''empty_view: '' @ quote), lit empty_view, lit (quote @ ''\<newline>'')],
         dashes])"

definition string_view_part2 :: "unit comp" where
  "string_view_part2 =
     (let capacity_view = ''capacity test''
      in statements
        [insertions Cout [lit ''--- Part 2: Capacity Functions ---\<newline>''],
         insertions Cout [lit (''capacity_view: '' @ quote), lit capacity_view, lit (quote @ ''\<newline>'')],
         insertions Cout
           [lit ''Size of capacity_view: '', size_item (length capacity_view), lit ''\<newline>''],
         insertions Cout
           [lit ''Length of capacity_view: '', size_item (length capacity_view),
            lit ''\<newline>''],
         insertions Cout
           [lit ''Is capacity_view empty? '', lit (if capacity_view = [] then ''Yes'' else ''No''),
            lit ''\<newline>''],
         dashes])"

definition access_view :: string where
  "access_view = ''access''"

text \<open>
  Lines 48 to 53: the access at index 2 stands before the \<open>try\<close> block, the access
  at index 10 inside it.
\<close>

definition string_view_part3 :: "unit comp" where
  "string_view_part3 = statements
     [insertions Cout [lit ''--- Part 3: Element Access ---\<newline>''],
      insertions Cout
        [lit ''Character at index 2 (using at()): '', as_chr (string_view_at access_view 2),
         lit ''\<newline>''],
      try_catch
        (insertions Cout [as_chr (string_view_at access_view 10), lit ''\<newline>''])
        Out_of_range
        (\<lambda>e. insertions Cerr
               [lit ''Caught exception from at(): '', yield (what_item e), lit ''\<newline>'']),
      insertions Cout
        [lit ''Character at index 2 (using []): '', chr_item (access_view ! 2), lit ''\<newline>''],
      insertions Cout [lit ''First character: '', chr_item (hd access_view), lit ''\<newline>''],
      insertions Cout [lit ''Last character: '', chr_item (last access_view), lit ''\<newline>''],
      insertions Cout [lit ''Using data() pointer: '', lit access_view, lit ''\<newline>''],
      dashes]"

definition string_view_part4 :: "unit comp" where
  "string_view_part4 =
     (let modify_view = ''prefix and suffix'';
          modify_view1 = remove_prefix modify_view 8;
          modify_view2 = remove_suffix modify_view1 7;
          other_view = ''swapped''
      in statements
        [insertions Cout
           [lit ''--- Part 4: Modifiers (non-mutating the underlying data) ---\<newline>''],
         insertions Cout [lit (''After remove_prefix(8): '' @ quote), lit modify_view1, lit (quote @ ''\<newline>'')],
         insertions Cout [lit (''After remove_suffix(7): '' @ quote), lit modify_view2, lit (quote @ ''\<newline>'')],
         insertions Cout
           [lit (''Before swap: modify_view='' @ quote), lit modify_view2, lit (quote @ '', other_view='' @ quote),
            lit other_view, lit (quote @ ''\<newline>'')],
         insertions Cout
           [lit (''After swap: modify_view='' @ quote), lit other_view, lit (quote @ '', other_view='' @ quote),
            lit modify_view2, lit (quote @ ''\<newline>'')],
         dashes])"

definition string_view_part5 :: "unit comp" where
  "string_view_part5 =
     (let search_view = ''The quick brown fox jumps over the lazy dog.'';
          other_view_compare = ''The quick brown fox''
      in statements
        [insertions Cout [lit ''--- Part 5: Operations and Searching ---\<newline>''],
         (case sv_substr search_view 16 3 of
            (t, Inl x) \<Rightarrow> (t, Inl x)
          | (t, Inr sub_view) \<Rightarrow>
              insertions Cout
                [lit (''Substring from index 16 for 3 chars: '' @ quote), lit sub_view, lit (quote @ ''\<newline>'')]),
         (case sv_find search_view ''fox'' of
            Some pos_find \<Rightarrow>
              insertions Cout
                [lit ''Found 'fox' at position: '', size_item pos_find, lit ''\<newline>'']
          | None \<Rightarrow> yield ()),
         insertions Cout
           [lit ''Does the view start with 'The'? '', boolalpha (starts_with search_view ''The''),
            lit ''\<newline>''],
         insertions Cout
           [lit ''Does the view end with 'dog.'? '', boolalpha (ends_with search_view ''dog.''),
            lit ''\<newline>''],
         (case sv_substr search_view 0 19 of
            (t, Inl x) \<Rightarrow> (t, Inl x)
          | (t, Inr head) \<Rightarrow>
              insertions Cout
                [lit (''Comparing '' @ quote), as_str (sv_substr search_view 0 19), lit (quote @ '' with '' @ quote),
                 lit other_view_compare, lit (quote @ '': ''),
                 yield (Num (sv_compare head other_view_compare)), lit ''\<newline>'']),
         dashes])"

definition string_view_main :: "unit comp" where
  "string_view_main = statements
     [string_view_part1, string_view_part2, string_view_part3, string_view_part4,
      string_view_part5]"

section \<open>optional.cpp\<close>

text \<open>
  A \<open>std::optional<T>\<close> is a \<open>T option\<close>. \<open>value()\<close> throws
  \<open>std::bad_optional_access\<close> on an empty optional; \<open>operator*\<close> and \<open>operator->\<close>
  do not check and are used on optionals that hold a value. \<open>%\<close> on \<open>int\<close> truncates
  towards zero (\<open>smod\<close> on the signed values).
\<close>

fun find_first_even :: "int32 list \<Rightarrow> int32 option" where
  "find_first_even [] = None"
| "find_first_even (num # numbers) =
     (if sint num smod 2 = 0 then Some num else find_first_even numbers)"

definition optional_value :: "'a option \<Rightarrow> 'a comp" where
  "optional_value opt =
     (case opt of Some v \<Rightarrow> yield v | None \<Rightarrow> raise (Exn Bad_optional_access None))"

definition value_or :: "'a option \<Rightarrow> 'a \<Rightarrow> 'a" where
  "value_or opt default_value = (case opt of Some v \<Rightarrow> v | None \<Rightarrow> default_value)"

text \<open>
  The comparison operators of \<open>std::optional<int>\<close>: two optionals are equal when
  both are empty or both hold equal values; an empty optional is less than one that
  holds a value.
\<close>

definition optional_eq :: "int32 option \<Rightarrow> int32 option \<Rightarrow> bool" where
  "optional_eq x y =
     (case (x, y) of
        (Some a, Some b) \<Rightarrow> a = b
      | (None, None) \<Rightarrow> True
      | _ \<Rightarrow> False)"

definition optional_less :: "int32 option \<Rightarrow> int32 option \<Rightarrow> bool" where
  "optional_less x y =
     (case (x, y) of
        (_, None) \<Rightarrow> False
      | (None, Some b) \<Rightarrow> True
      | (Some a, Some b) \<Rightarrow> a <s b)"

text \<open>
  Lines 56 to 64: the \<open>try\<close> block reads \<open>found_val.value()\<close>, declares the empty
  \<open>empty_opt\<close> and reads \<open>empty_opt.value()\<close>.
\<close>

definition optional_value_demo :: "int32 option \<Rightarrow> unit comp" where
  "optional_value_demo found_val =
     try_catch
       (statements
          [insertions Cout
             [lit ''  Using value(): '', as_num (optional_value found_val), lit ''\<newline>''],
           (let empty_opt = None
            in statements
              [insertions Cout [lit ''  Trying to access empty_opt.value()...\<newline>''],
               insertions Cout [as_num (optional_value empty_opt), lit ''\<newline>'']])])
       Bad_optional_access
       (\<lambda>e. insertions Cerr
              [lit ''  Caught exception: '', yield (what_item e), lit ''\<newline>''])"

definition optional_part2 :: "unit comp" where
  "optional_part2 =
     (let found_val = find_first_even [1, 3, 5, 8, 10];
          person_name = Some ''Alice'';
          full_name = Some ''Alice'';
          empty_int = None
      in statements
        [insertions Cout [lit ''--- Part 2: Observers (Accessing the value) ---\<newline>''],
         (if found_val \<noteq> None
          then insertions Cout
                 [lit ''  has_value() check: Found even number '', num_item (the found_val),
                  lit ''.\<newline>'']
          else yield ()),
         (if found_val \<noteq> None
          then insertions Cout
                 [lit ''  operator bool() check: Found even number '', num_item (the found_val),
                  lit ''.\<newline>'']
          else yield ()),
         optional_value_demo found_val,
         insertions Cout [lit ''  Using operator*(): '', lit (the person_name), lit ''\<newline>''],
         insertions Cout
           [lit ''  Using operator->(): length is '', size_item (length (the full_name)),
            lit ''\<newline>''],
         insertions Cout
           [lit ''  Using value_or() on an empty optional: '', num_item (value_or empty_int 99),
            lit ''\<newline>''],
         insertions Cout
           [lit ''  Using value_or() on an optional with a value: '', num_item (value_or found_val 99),
            lit ''\<newline>\<newline>'']])"

definition optional_part3 :: "unit comp" where
  "optional_part3 =
     (let opt_vec = Some (replicate 10 (5 :: int32));
          opt_vec_reset = (None :: int32 list option);
          a = Some (1 :: int32);
          b = Some (2 :: int32)
      in statements
        [insertions Cout [lit ''--- Part 3: Modifiers ---\<newline>''],
         insertions Cout
           [lit ''  emplace() created a vector of size '', size_item (length (the opt_vec)),
            lit ''\<newline>''],
         insertions Cout
           [lit ''  First element is: '', num_item (hd (the opt_vec)), lit ''\<newline>''],
         insertions Cout
           [lit ''  After reset(), opt_vec.has_value(): '', boolalpha (opt_vec_reset \<noteq> None),
            lit ''\<newline>''],
         insertions Cout
           [lit ''  Before swap: a='', as_num (optional_value a), lit '', b='',
            as_num (optional_value b), lit ''\<newline>''],
         insertions Cout
           [lit ''  After swap: a='', as_num (optional_value b), lit '', b='',
            as_num (optional_value a), lit ''\<newline>\<newline>'']])"

definition optional_part4 :: "unit comp" where
  "optional_part4 =
     (let o1 = Some 10; o2 = Some 10; o3 = Some 20; o4 = None
      in statements
        [insertions Cout [lit ''--- Part 4: Comparison Operators ---\<newline>''],
         insertions Cout [lit ''  o1 == o2? '', boolalpha (optional_eq o1 o2), lit ''\<newline>''],
         insertions Cout [lit ''  o1 == o3? '', boolalpha (optional_eq o1 o3), lit ''\<newline>''],
         insertions Cout [lit ''  o1 == o4? '', boolalpha (optional_eq o1 o4), lit ''\<newline>''],
         insertions Cout [lit ''  o1 < o3? '', boolalpha (optional_less o1 o3), lit ''\<newline>''],
         insertions Cout [lit ''  o4 < o1? '', boolalpha (optional_less o4 o1), lit ''\<newline>'']])"

text \<open>
  The program from part 2 to its end. Part 1 reads no \<open>value()\<close> and prints a
  \<open>double\<close>; it is left out.
\<close>

definition optional_main_from_part2 :: "unit comp" where
  "optional_main_from_part2 = statements [optional_part2, optional_part3, optional_part4]"

section \<open>future.cpp: a promise that stores an exception\<close>

text \<open>
  The shared state of a \<open>std::promise<int>\<close> and its \<open>std::future<int>\<close>: not ready,
  or ready with a value or with an exception. \<open>set_exception\<close> on a state that is
  ready throws \<open>std::future_error\<close>. \<open>get()\<close> returns the value or rethrows the
  stored exception; on a state that is not ready it waits, so it has no outcome there
  (\<open>None\<close>).
\<close>

datatype 'a shared_state = Not_ready | Ready_value 'a | Ready_exception exn

definition and_then :: "'a comp \<Rightarrow> ('a \<Rightarrow> 'b comp) \<Rightarrow> 'b comp" where
  "and_then c f =
     (case c of
        (t, Inl x) \<Rightarrow> (t, Inl x)
      | (t, Inr a) \<Rightarrow> (case f a of (t', r) \<Rightarrow> (t @ t', r)))"

definition set_exception :: "'a shared_state \<Rightarrow> exn \<Rightarrow> 'a shared_state comp" where
  "set_exception p e =
     (case p of Not_ready \<Rightarrow> yield (Ready_exception e) | _ \<Rightarrow> raise (Exn Future_error None))"

definition future_get :: "'a shared_state \<Rightarrow> 'a comp option" where
  "future_get st =
     (case st of
        Not_ready \<Rightarrow> None
      | Ready_value v \<Rightarrow> Some (yield v)
      | Ready_exception e \<Rightarrow> Some (raise e))"

text \<open>
  Lines 19 to 24. The sleep leaves no event; \<open>return 0\<close> after the \<open>throw\<close> is never
  reached.
\<close>

definition calculate_with_error :: "int32 comp" where
  "calculate_with_error =
     and_then (insertions Cout [lit ''  Task started, but will throw an exception.\<newline>''])
       (\<lambda>u. raise (Exn Runtime_error (Some ''An error occurred during calculation!'')))"

text \<open>
  Lines 96 to 103, the body of \<open>exception_thread\<close>: the result is the shared state
  the thread leaves.
\<close>

definition exception_producer :: "int32 shared_state \<Rightarrow> int32 shared_state comp" where
  "exception_producer p =
     try_catch_all (and_then calculate_with_error (\<lambda>n. yield p)) (\<lambda>e. set_exception p e)"

text \<open>
  Lines 94 to 111. The main thread starts the producer and calls
  \<open>future_with_error.get()\<close>, which waits until the producer has made the shared state
  ready: the events of the producer come first, and \<open>get()\<close> reads the state that the
  producer leaves. The outcome is \<open>None\<close> when \<open>get()\<close> would wait for ever.
\<close>

definition promise_exception_demo :: "unit comp option" where
  "promise_exception_demo =
     (case exception_producer Not_ready of
        (t, Inl x) \<Rightarrow> Some (t, Inl x)
      | (t, Inr st) \<Rightarrow>
          (case future_get st of
             None \<Rightarrow> None
           | Some got \<Rightarrow>
               (case try_catch (and_then got (\<lambda>n. yield ())) Std_exception
                       (\<lambda>e. insertions Cout
                              [lit ''  Caught expected exception from promise: '',
                               yield (what_item e), lit ''\<newline>\<newline>''])
                of (t', r) \<Rightarrow> Some (t @ t', r))))"

section \<open>fstream.cpp\<close>

subsection \<open>Files and streams\<close>

text \<open>
  The program runs in a working directory. A name in it is absent, or a regular file
  with its bytes, or a directory; other kinds of file (devices, pipes, links that give
  one file two names) are outside the model, and so is storage that fails (a full
  device) and a directory that another process changes while the program runs. Of the
  permissions, what counts
  is what this process may do: \<open>may_read\<close> and \<open>may_write\<close> say whether it can open
  the file for reading and for writing. \<open>creatable\<close> says whether it can make a new
  file in the directory. The library creates a file with mode 0666 less the file mode
  creation mask of the process: \<open>new_readable\<close> and \<open>new_writable\<close> say whether a
  file made so can afterwards be opened for reading and for writing. The opening that
  creates a file succeeds whatever that mode is.
\<close>

datatype node =
  Regular (bytes_of: string) (may_read: bool) (may_write: bool) | Directory (may_list: bool)

record filesys =
  entry_of :: "string \<Rightarrow> node option"
  creatable :: bool
  new_readable :: bool
  new_writable :: bool

text \<open>
  A file stream: the bytes of its file as the stream sees them, its position, the
  state bits, whether it is open, whether it was opened for output, and whether reading
  from it fails because the name is a directory. \<open>good()\<close> is no bit set; \<open>fail()\<close>
  is \<open>failbit\<close> or \<open>badbit\<close>. A stream whose \<open>open\<close> failed is not open and has
  \<open>failbit\<close> set.
\<close>

record stream =
  path :: string
  data :: string
  pos :: nat
  eofbit :: bool
  failbit :: bool
  badbit :: bool
  is_open :: bool
  for_output :: bool
  unreadable :: bool

definition good :: "stream \<Rightarrow> bool" where
  "good st = (\<not> eofbit st \<and> \<not> failbit st \<and> \<not> badbit st)"


definition opened_on :: "string \<Rightarrow> string \<Rightarrow> bool \<Rightarrow> stream" where
  "opened_on name bytes out =
     \<lparr>path = name, data = bytes, pos = 0, eofbit = False, failbit = False, badbit = False,
      is_open = True, for_output = out, unreadable = False\<rparr>"

definition opened_on_directory :: "string \<Rightarrow> stream" where
  "opened_on_directory name =
     \<lparr>path = name, data = [], pos = 0, eofbit = False, failbit = False, badbit = False,
      is_open = True, for_output = False, unreadable = True\<rparr>"

definition not_opened :: "string \<Rightarrow> stream" where
  "not_opened name =
     \<lparr>path = name, data = [], pos = 0, eofbit = False, failbit = True, badbit = False,
      is_open = False, for_output = False, unreadable = False\<rparr>"

text \<open>
  \<open>std::ifstream\<close> opens for reading (\<open>O_RDONLY\<close>): a regular file that may be read,
  or a directory, which opens and then cannot be read from.
\<close>

definition open_ifstream :: "filesys \<Rightarrow> string \<Rightarrow> stream" where
  "open_ifstream fs name =
     (case entry_of fs name of
        None \<Rightarrow> not_opened name
      | Some (Regular bytes r w) \<Rightarrow> if r then opened_on name bytes False else not_opened name
      | Some (Directory r) \<Rightarrow> if r then opened_on_directory name else not_opened name)"

text \<open>
  \<open>std::ofstream\<close> opens for writing, creating or emptying the file
  (\<open>O_WRONLY | O_CREAT | O_TRUNC\<close>): an absent name is created where the directory
  allows it, a regular file is emptied where it may be written and keeps its mode,
  a directory does not open. \<open>std::ios::binary\<close> changes nothing where a byte is a
  byte.
\<close>

definition created :: "filesys \<Rightarrow> node" where
  "created fs = Regular [] (new_readable fs) (new_writable fs)"

definition open_ofstream :: "filesys \<Rightarrow> string \<Rightarrow> filesys \<times> stream" where
  "open_ofstream fs name =
     (case entry_of fs name of
        None \<Rightarrow>
          if creatable fs
          then (fs\<lparr>entry_of := (entry_of fs)(name \<mapsto> created fs)\<rparr>, opened_on name [] True)
          else (fs, not_opened name)
      | Some (Regular bytes r w) \<Rightarrow>
          if w
          then (fs\<lparr>entry_of := (entry_of fs)(name \<mapsto> Regular [] r w)\<rparr>, opened_on name [] True)
          else (fs, not_opened name)
      | Some (Directory r) \<Rightarrow> (fs, not_opened name))"



text \<open>
  Output (\<open><<\<close> of text, \<open>put\<close>, \<open>write\<close>) on a good stream stores the bytes at the
  position, over what is there, and moves the position behind them. On a stream that is
  not good nothing is stored; the stream then stays as it is, but that \<open>failbit\<close> is
  set where \<open>badbit\<close> is.
\<close>

definition put_bytes :: "stream \<Rightarrow> string \<Rightarrow> stream" where
  "put_bytes st bytes =
     (if good st
      then st\<lparr>data := take (pos st) (data st @ replicate (pos st - length (data st)) (CHR 0x00))
                       @ bytes @ drop (pos st + length bytes) (data st),
               pos := pos st + length bytes\<rparr>
      else if badbit st then st\<lparr>failbit := True\<rparr>
      else st)"

text \<open>
  \<open>flush\<close> and \<open>close\<close> bring the file of a stream opened for output to the bytes
  that the stream holds; the file keeps its mode. Closing a stream that was opened for
  reading, or that is not open, changes nothing.
\<close>

definition store :: "filesys \<Rightarrow> string \<Rightarrow> string \<Rightarrow> filesys" where
  "store fs name bytes =
     (case entry_of fs name of
        Some (Regular old r w) \<Rightarrow> fs\<lparr>entry_of := (entry_of fs)(name \<mapsto> Regular bytes r w)\<rparr>
      | _ \<Rightarrow> fs)"

definition flush :: "filesys \<Rightarrow> stream \<Rightarrow> filesys" where
  "flush fs st = (if is_open st \<and> for_output st then store fs (path st) (data st) else fs)"

definition close :: "filesys \<Rightarrow> stream \<Rightarrow> filesys" where
  "close fs st = flush fs st"








text \<open>
  \<open>read(buffer, n)\<close> takes \<open>n\<close> bytes, or the bytes that are left, setting
  \<open>eofbit\<close> and \<open>failbit\<close> when they are fewer; on a directory it takes none and
  sets \<open>badbit\<close>. The outcome is what it stored at the front of the buffer.
\<close>

definition read :: "stream \<Rightarrow> nat \<Rightarrow> stream \<times> string" where
  "read st n =
     (if \<not> good st then (st\<lparr>failbit := True\<rparr>, [])
      else if unreadable st then (st\<lparr>badbit := True\<rparr>, [])
      else let got = take n (drop (pos st) (data st))
           in if length got < n
              then (st\<lparr>pos := pos st + length got, eofbit := True, failbit := True\<rparr>, got)
              else (st\<lparr>pos := pos st + n\<rparr>, got))"




subsection \<open>The object representation of an \<open>int\<close>\<close>

text \<open>
  \<open>reinterpret_cast<char*>(&number)\<close> with \<open>sizeof(number)\<close> is the four bytes of
  the \<open>int\<close>, the least significant first on the little-endian targets.
  \<open>value_of_bytes\<close> is the \<open>int\<close> that four bytes stored over it make.
\<close>

definition object_bytes :: "int32 \<Rightarrow> string" where
  "object_bytes w =
     (let n = unat w
      in [char_of n, char_of (n div 256), char_of (n div 65536), char_of (n div 16777216)])"

definition value_of_bytes :: "string \<Rightarrow> int32" where
  "value_of_bytes bs =
     word_of_nat
       (of_char (bs ! 0) + 256 * of_char (bs ! 1) + 65536 * of_char (bs ! 2)
        + 16777216 * of_char (bs ! 3))"

subsection \<open>Variables without an initial value\<close>


subsection \<open>The examples\<close>

definition cout :: "item list \<Rightarrow> event list" where
  "cout items = map (Write Cout) items"


text \<open>\<open>std::endl\<close> inserts a newline (and flushes).\<close>

definition endl :: item where
  "endl = Str ''\<newline>''"






text \<open>
  Lines 92 to 103 with the stored value for a parameter; the program stores 12345.
  Neither stream is tested after it is opened. \<open>recovered\<close> starts as 0 and the bytes
  read are stored over its own.
\<close>

definition read_write :: "int32 \<Rightarrow> filesys \<Rightarrow> event list \<times> filesys" where
  "read_write number fs =
     (case open_ofstream fs ''binary.dat'' of
        (fs1, out) \<Rightarrow>
          (let out1 = put_bytes out (object_bytes number);
               fs2 = close fs1 out1;
               inp = open_ifstream fs2 ''binary.dat''
           in case read inp 4 of
                (inp1, got) \<Rightarrow>
                  (let recovered = value_of_bytes (got @ drop (length got) (object_bytes 0))
                   in (cout [Str ''Recovered number: '', Num (sint recovered), endl],
                       close fs2 inp1))))"

definition example_read_write :: "filesys \<Rightarrow> event list \<times> filesys" where
  "example_read_write fs = read_write 12345 fs"










subsection \<open>What a run finds and what it leaves behind\<close>

text \<open>
  Whether \<open>std::ofstream\<close> can open a name (\<open>opens_for_writing\<close>), whether
  \<open>std::fstream\<close> with \<open>in | out | trunc\<close> can (\<open>opens_for_both\<close>), and the
  permissions of the file once it has been opened so: those of the file that was there,
  or those of a new file. \<open>written fs name bytes\<close> is the directory once the name
  has been opened so and the bytes have been stored in the file.
\<close>

definition opens_for_writing :: "filesys \<Rightarrow> string \<Rightarrow> bool" where
  "opens_for_writing fs name =
     (case entry_of fs name of
        None \<Rightarrow> creatable fs
      | Some (Regular bytes r w) \<Rightarrow> w
      | Some (Directory r) \<Rightarrow> False)"


definition readable_once_written :: "filesys \<Rightarrow> string \<Rightarrow> bool" where
  "readable_once_written fs name =
     (case entry_of fs name of
        None \<Rightarrow> new_readable fs
      | Some (Regular bytes r w) \<Rightarrow> r
      | Some (Directory r) \<Rightarrow> False)"

definition writable_once_written :: "filesys \<Rightarrow> string \<Rightarrow> bool" where
  "writable_once_written fs name =
     (case entry_of fs name of
        None \<Rightarrow> new_writable fs
      | Some (Regular bytes r w) \<Rightarrow> w
      | Some (Directory r) \<Rightarrow> False)"

definition written :: "filesys \<Rightarrow> string \<Rightarrow> string \<Rightarrow> filesys" where
  "written fs name bytes =
     fs\<lparr>entry_of := (entry_of fs)(name \<mapsto>
          Regular bytes (readable_once_written fs name) (writable_once_written fs name))\<rparr>"




definition policy :: "filesys \<Rightarrow> bool \<times> bool \<times> bool" where
  "policy fs = (creatable fs, new_readable fs, new_writable fs)"




definition leaves :: "string \<Rightarrow> (filesys \<Rightarrow> event list \<times> filesys) \<Rightarrow> bool" where
  "leaves name example =
     (\<forall>fs. entry_of (snd (example fs)) name = entry_of fs name
           \<and> policy (snd (example fs)) = policy fs)"


subsection \<open>Some directories and runs\<close>

text \<open>
  A directory that is empty, takes new files and leaves them readable and writable (a
  file mode creation mask such as 022); one that differs in that the new files are
  read-only (a mask such as 0222); one that differs from the first in a lines.txt left
  from before; and one that is empty and takes no new file.
\<close>

definition empty_directory :: filesys where
  "empty_directory =
     \<lparr>entry_of = (\<lambda>name. None), creatable = True, new_readable = True, new_writable = True\<rparr>"



definition locked_directory :: filesys where
  "locked_directory =
     \<lparr>entry_of = (\<lambda>name. None), creatable = False, new_readable = True, new_writable = True\<rparr>"



section \<open>chrono.cpp, part 3\<close>

text \<open>
  Lines 60 to 74 print a reading of \<open>std::chrono::system_clock::now()\<close>: the time
  since the epoch in milliseconds, and the same for the time point ten seconds later.
  The reading is the parameter \<open>now\<close>, in nanoseconds since the epoch;
  \<open>duration_cast\<close> to milliseconds truncates towards zero (\<open>sdiv\<close>).
\<close>

definition chrono_part3 :: "int \<Rightarrow> event list" where
  "chrono_part3 now =
     (let duration_since_epoch = now;
          future_time = now + 10 * 1000000000
      in cout [Str ''--- Part 3: Clocks and Time Points ---\<newline>'']
         @ cout [Str ''  Current time: '', Num (duration_since_epoch sdiv 1000000),
                 Str ''ms since epoch\<newline>'']
         @ cout [Str ''  Time in 10 seconds has a different count (not a duration): \<newline>'']
         @ cout [Str ''  '', Num (future_time sdiv 1000000), Str ''ms since epoch\<newline>\<newline>''])"

section \<open>mutex.cpp, part 5: \<open>std::call_once\<close>\<close>

text \<open>
  Lines 147 to 163 of \<open>main\<close> with \<open>expensive_initialization\<close> (lines 38 to 42):
  the main thread prints two lines, starts the threads \<open>t_once1\<close> and \<open>t_once2\<close>,
  each running \<open>task_to_call_once\<close> (lines 150 to 155), joins them and returns.

  A \<open>std::once_flag\<close> is in one of three states: no call has begun, a call of the
  function is in progress, a call has returned. \<open>std::call_once(flag, f)\<close> on the
  first state makes the calling thread call \<open>f\<close> (an active execution); on the second
  the caller waits; on the third it returns at once (a passive execution). When the
  active execution returns, the flag goes to the third state.
  \<open>expensive_initialization\<close> throws nothing, so the case of a call that ends by an
  exception, which leaves the flag in the first state, does not arise.
\<close>

datatype once_flag = Not_called | In_progress | Called

datatype thread = Main_thread | T_once1 | T_once2

text \<open>
  Where a thread stands: before the statement of the line named. The main thread runs
  lines 147 to 163. A thread of \<open>task_to_call_once\<close> is not started, or stands
  before line 153 (the call of \<open>std::call_once\<close>), inside
  \<open>expensive_initialization\<close> (lines 39 to 41, and line 42 where it returns), before
  one of the three insertions of line 154, or has finished.
\<close>

datatype main_at = Line_147 | Line_157 | Line_158 | Line_159 | Line_160 | Line_161 | Line_163

datatype task_at =
  Not_started | Line_153 | Line_39 | Line_40 | Line_41 | Line_42
  | Line_154_text | Line_154_id | Line_154_rest | Finished

text \<open>
  What happens in a run, in order: an insertion into \<open>std::cout\<close> by a thread (a text,
  or the thread's id), a call of \<open>expensive_initialization\<close> beginning, and such a
  call returning.
\<close>

datatype inserted = Text string | Id_of thread

datatype happening = Inserts thread inserted | Call_begins thread | Call_returns thread

record config =
  flag :: once_flag
  main_thread :: main_at
  t_once1 :: task_at
  t_once2 :: task_at
  happened :: "happening list"

text \<open>
  One step of a thread of \<open>task_to_call_once\<close>: the new state of the flag, where
  the thread stands then, and what happened; \<open>None\<close> where the thread cannot move
  (it is not started, it waits in \<open>std::call_once\<close>, or it has finished).
  \<open>std::this_thread::sleep_for\<close> in line 40 is a step that changes nothing else.
\<close>

fun task_step ::
    "thread \<Rightarrow> once_flag \<Rightarrow> task_at \<Rightarrow> (once_flag \<times> task_at \<times> happening list) option" where
  "task_step t f Not_started = None"
| "task_step t Not_called Line_153 = Some (In_progress, Line_39, [Call_begins t])"
| "task_step t In_progress Line_153 = None"
| "task_step t Called Line_153 = Some (Called, Line_154_text, [])"
| "task_step t f Line_39 =
     Some (f, Line_40, [Inserts t (Text ''    Expensive initialization started...\<newline>'')])"
| "task_step t f Line_40 = Some (f, Line_41, [])"
| "task_step t f Line_41 =
     Some (f, Line_42, [Inserts t (Text ''    Expensive initialization finished.\<newline>'')])"
| "task_step t f Line_42 = Some (Called, Line_154_text, [Call_returns t])"
| "task_step t f Line_154_text = Some (f, Line_154_id, [Inserts t (Text ''  Thread '')])"
| "task_step t f Line_154_id = Some (f, Line_154_rest, [Inserts t (Id_of t)])"
| "task_step t f Line_154_rest =
     Some (f, Finished, [Inserts t (Text '' has finished its task.\<newline>'')])"
| "task_step t f Finished = None"

text \<open>
  One step of the main thread. Constructing a \<open>std::thread\<close> starts the new thread
  at line 153; \<open>join\<close> can be passed once the thread has finished.
\<close>

fun main_step :: "config \<Rightarrow> config option" where
  "main_step c =
     (case main_thread c of
        Line_147 \<Rightarrow>
          Some (c\<lparr>main_thread := Line_157,
                  happened := happened c
                    @ [Inserts Main_thread
                         (Text ''--- Part 5: std::call_once (Single-time Execution) ---\<newline>'')]\<rparr>)
      | Line_157 \<Rightarrow>
          Some (c\<lparr>main_thread := Line_158,
                  happened := happened c
                    @ [Inserts Main_thread (Text ''  Demonstrating std::call_once...\<newline>'')]\<rparr>)
      | Line_158 \<Rightarrow> Some (c\<lparr>main_thread := Line_159, t_once1 := Line_153\<rparr>)
      | Line_159 \<Rightarrow> Some (c\<lparr>main_thread := Line_160, t_once2 := Line_153\<rparr>)
      | Line_160 \<Rightarrow> if t_once1 c = Finished then Some (c\<lparr>main_thread := Line_161\<rparr>) else None
      | Line_161 \<Rightarrow> if t_once2 c = Finished then Some (c\<lparr>main_thread := Line_163\<rparr>) else None
      | Line_163 \<Rightarrow> None)"

fun step :: "thread \<Rightarrow> config \<Rightarrow> config option" where
  "step Main_thread c = main_step c"
| "step T_once1 c =
     (case task_step T_once1 (flag c) (t_once1 c) of
        None \<Rightarrow> None
      | Some (f, at, hs) \<Rightarrow> Some (c\<lparr>flag := f, t_once1 := at, happened := happened c @ hs\<rparr>))"
| "step T_once2 c =
     (case task_step T_once2 (flag c) (t_once2 c) of
        None \<Rightarrow> None
      | Some (f, at, hs) \<Rightarrow> Some (c\<lparr>flag := f, t_once2 := at, happened := happened c @ hs\<rparr>))"

text \<open>
  An interleaving is the order in which the threads take their steps. \<open>run\<close> follows
  it from a configuration; the outcome is \<open>None\<close> where the interleaving asks a step
  of a thread that cannot move.
\<close>

fun run :: "thread list \<Rightarrow> config \<Rightarrow> config option" where
  "run [] c = Some c"
| "run (t # ts) c = (case step t c of None \<Rightarrow> None | Some c' \<Rightarrow> run ts c')"

text \<open>Line 147 is reached with \<open>flag\<close> (line 149) in its initial state.\<close>

definition part5_start :: config where
  "part5_start =
     \<lparr>flag = Not_called, main_thread = Line_147, t_once1 = Not_started, t_once2 = Not_started,
      happened = []\<rparr>"

text \<open>How often \<open>expensive_initialization\<close> has been called.\<close>

fun calls_begun :: "happening list \<Rightarrow> nat" where
  "calls_begun [] = 0"
| "calls_begun (Call_begins t # hs) = Suc (calls_begun hs)"
| "calls_begun (h # hs) = calls_begun hs"

definition executions :: "config \<Rightarrow> nat" where
  "executions c = calls_begun (happened c)"

definition can_move :: "config \<Rightarrow> thread list" where
  "can_move c = filter (\<lambda>t. step t c \<noteq> None) [Main_thread, T_once1, T_once2]"

text \<open>
  Two interleavings for illustration. In the first the main thread starts both threads
  and \<open>t_once2\<close> is the first to reach \<open>std::call_once\<close>; in the second
  \<open>t_once1\<close> is inside \<open>expensive_initialization\<close> when \<open>t_once2\<close> is started.
\<close>

definition second_thread_first :: "thread list" where
  "second_thread_first =
     [Main_thread, Main_thread, Main_thread, Main_thread,
      T_once2, T_once2, T_once2, T_once2, T_once2,
      T_once1, T_once1, T_once2, T_once1, T_once2, T_once1, T_once2,
      Main_thread, Main_thread]"

definition first_thread_first :: "thread list" where
  "first_thread_first =
     [Main_thread, Main_thread, Main_thread, T_once1, T_once1, Main_thread, T_once1,
      T_once1, T_once1, T_once2, T_once1, T_once2, T_once1, T_once2, T_once1, Main_thread,
      T_once2, Main_thread]"

text \<open>
  What holds of every configuration that a run reaches. The flag agrees with where the
  threads stand: while no call has begun both threads are before line 153; while the
  call is in progress exactly one thread is inside \<open>expensive_initialization\<close> and
  the other is before line 153; once it has returned no thread is inside. The main
  thread agrees with the threads it has started and joined. \<open>steps_left\<close> counts
  the steps that remain to the end of the run.
\<close>

fun inside :: "task_at \<Rightarrow> bool" where
  "inside Line_39 = True"
| "inside Line_40 = True"
| "inside Line_41 = True"
| "inside Line_42 = True"
| "inside at = False"

fun before_call :: "task_at \<Rightarrow> bool" where
  "before_call Not_started = True"
| "before_call Line_153 = True"
| "before_call at = False"

definition flag_agrees :: "config \<Rightarrow> bool" where
  "flag_agrees c =
     (case flag c of
        Not_called \<Rightarrow> executions c = 0 \<and> before_call (t_once1 c) \<and> before_call (t_once2 c)
      | In_progress \<Rightarrow>
          executions c = 1
          \<and> (inside (t_once1 c) \<and> before_call (t_once2 c)
             \<or> inside (t_once2 c) \<and> before_call (t_once1 c))
      | Called \<Rightarrow> executions c = 1 \<and> \<not> inside (t_once1 c) \<and> \<not> inside (t_once2 c))"

definition main_agrees :: "config \<Rightarrow> bool" where
  "main_agrees c =
     (case main_thread c of
        Line_147 \<Rightarrow> t_once1 c = Not_started \<and> t_once2 c = Not_started
      | Line_157 \<Rightarrow> t_once1 c = Not_started \<and> t_once2 c = Not_started
      | Line_158 \<Rightarrow> t_once1 c = Not_started \<and> t_once2 c = Not_started
      | Line_159 \<Rightarrow> t_once1 c \<noteq> Not_started \<and> t_once2 c = Not_started
      | Line_160 \<Rightarrow> t_once1 c \<noteq> Not_started \<and> t_once2 c \<noteq> Not_started
      | Line_161 \<Rightarrow> t_once1 c = Finished \<and> t_once2 c \<noteq> Not_started
      | Line_163 \<Rightarrow> t_once1 c = Finished \<and> t_once2 c = Finished)"

fun steps_of_main :: "main_at \<Rightarrow> nat" where
  "steps_of_main Line_147 = 6"
| "steps_of_main Line_157 = 5"
| "steps_of_main Line_158 = 4"
| "steps_of_main Line_159 = 3"
| "steps_of_main Line_160 = 2"
| "steps_of_main Line_161 = 1"
| "steps_of_main Line_163 = 0"

fun steps_of_task :: "task_at \<Rightarrow> nat" where
  "steps_of_task Not_started = 4"
| "steps_of_task Line_153 = 4"
| "steps_of_task Line_39 = 7"
| "steps_of_task Line_40 = 6"
| "steps_of_task Line_41 = 5"
| "steps_of_task Line_42 = 4"
| "steps_of_task Line_154_text = 3"
| "steps_of_task Line_154_id = 2"
| "steps_of_task Line_154_rest = 1"
| "steps_of_task Finished = 0"

definition steps_left :: "config \<Rightarrow> nat" where
  "steps_left c =
     steps_of_main (main_thread c) + steps_of_task (t_once1 c) + steps_of_task (t_once2 c)
     + (if flag c = Not_called then 4 else 0)"

section \<open>Proofs: algorithm.cpp\<close>

declare remove_loop.simps [simp del]


subsection \<open>Sorting\<close>

lemma mset_insert_sorted: "mset (insert_sorted x ys) = add_mset x (mset ys)"
  by (induction ys) auto

lemma set_insert_sorted: "set (insert_sorted x ys) = insert x (set ys)"
  by (induction ys) auto

lemma sorted_insert_sorted:
  "sorted (map sint ys) \<Longrightarrow> sorted (map sint (insert_sorted x ys))"
  by (induction ys) (auto simp: word_sless_alt set_insert_sorted)

lemma mset_foldl_insert:
  "mset (foldl (\<lambda>sorted_part x. insert_sorted x sorted_part) acc xs) = mset acc + mset xs"
  by (induction xs arbitrary: acc) (auto simp: mset_insert_sorted)

lemma sorted_foldl_insert:
  "sorted (map sint acc) \<Longrightarrow>
   sorted (map sint (foldl (\<lambda>sorted_part x. insert_sorted x sorted_part) acc xs))"
  by (induction xs arbitrary: acc) (auto simp: sorted_insert_sorted)

lemma std_sort_sorted: "sorted (map sint (std_sort xs))"
  by (simp add: std_sort_def sorted_foldl_insert)

lemma std_sort_mset: "mset (std_sort xs) = mset xs"
  by (simp add: std_sort_def mset_foldl_insert)

text \<open>
  The choice of algorithm does not show in the result: a vector in ascending signed order
  with the elements of \<open>xs\<close> is the vector the model returns.
\<close>

lemma std_sort_unique:
  assumes "sorted (map sint ys)" and "mset ys = mset xs"
  shows "ys = std_sort xs"
proof -
  have "mset (map sint ys) = mset (map sint (std_sort xs))"
    using assms(2) by (simp add: std_sort_mset)
  then have "sort (map sint (std_sort xs)) = map sint ys"
    using assms(1) by (intro properties_for_sort) simp_all
  moreover have "sort (map sint (std_sort xs)) = map sint (std_sort xs)"
    using std_sort_sorted by (rule sorted_sort_id)
  ultimately have "map sint ys = map (sint :: int32 \<Rightarrow> int) (std_sort xs)"
    by simp
  moreover have "inj (sint :: int32 \<Rightarrow> int)"
    by (rule injI) (rule signed_word_eqI)
  ultimately show ?thesis
    by simp
qed

text \<open>
  C2. After \<open>std::sort(sortVec.begin(), sortVec.end())\<close> the vector is in ascending
  order and is a permutation of what it held before, for every vector of \<open>int\<close>; the
  demonstrated vector \<open>{8, 1, 4, 3, 7, 2, 5, 6}\<close> becomes \<open>{1, 2, 3, 4, 5, 6, 7, 8}\<close>.
\<close>

theorem std_sort_ascending_permutation:
  "sorted (map sint (std_sort xs)) \<and> mset (std_sort xs) = mset xs
   \<and> std_sort sortVec = [1, 2, 3, 4, 5, 6, 7, 8]"
proof -
  have "std_sort sortVec = [1, 2, 3, 4, 5, 6, 7, 8]"
    by (simp add: std_sort_def sortVec_def word_sless_alt)
  then show ?thesis
    by (simp add: std_sort_sorted std_sort_mset)
qed

subsection \<open>The remove-erase idiom\<close>

text \<open>
  The loop invariant: the positions before \<open>result\<close> hold what is kept of the part
  already read, and the part not yet read is untouched.
\<close>

lemma remove_loop_take:
  "r \<le> f \<Longrightarrow> f \<le> length xs \<Longrightarrow> remove_loop v xs r f = (ys, n) \<Longrightarrow>
   take n ys = take r xs @ filter (\<lambda>x. x \<noteq> v) (drop f xs) \<and> length ys = length xs"
proof (induction v xs r f rule: remove_loop.induct)
  case (1 v xs r f)
  show ?case
  proof (cases "f < length xs")
    case False
    then have "remove_loop v xs r f = (xs, r)"
      by (subst remove_loop.simps) simp
    with False "1.prems" show ?thesis
      by simp
  next
    case inside: True
    show ?thesis
    proof (cases "xs ! f = v")
      case True
      with inside have "remove_loop v xs r f = remove_loop v xs r (Suc f)"
        by (subst remove_loop.simps) simp
      with "1.prems" have run: "remove_loop v xs r (Suc f) = (ys, n)"
        by simp
      have "r \<le> Suc f" "Suc f \<le> length xs"
        using "1.prems" inside by simp_all
      with "1.IH"(2) [OF inside _ _ _ run] True
      have "take n ys = take r xs @ filter (\<lambda>x. x \<noteq> v) (drop (Suc f) xs)
            \<and> length ys = length xs"
        by simp
      with True inside show ?thesis
        by (simp add: Cons_nth_drop_Suc [symmetric])
    next
      case False
      let ?xs = "xs[r := xs ! f]"
      from False inside have "remove_loop v xs r f = remove_loop v ?xs (Suc r) (Suc f)"
        by (subst remove_loop.simps) simp
      with "1.prems" have run: "remove_loop v ?xs (Suc r) (Suc f) = (ys, n)"
        by simp
      have "Suc r \<le> Suc f" "Suc f \<le> length ?xs"
        using "1.prems" inside by simp_all
      with "1.IH"(1) [OF inside False _ _ run]
      have "take n ys = take (Suc r) ?xs @ filter (\<lambda>x. x \<noteq> v) (drop (Suc f) ?xs)
            \<and> length ys = length xs"
        by simp
      moreover from "1.prems" inside have "take (Suc r) ?xs = take r xs @ [xs ! f]"
        by (simp add: take_Suc_conv_app_nth)
      moreover from "1.prems" have "drop (Suc f) ?xs = drop (Suc f) xs"
        by simp
      ultimately show ?thesis
        using False inside by (simp add: Cons_nth_drop_Suc [symmetric])
    qed
  qed
qed

lemma std_find_le: "std_find xs v \<le> length xs"
  by (induction xs) auto

lemma std_find_take:
  "filter (\<lambda>x. x \<noteq> v) (take (std_find xs v) xs) = take (std_find xs v) xs"
  by (induction xs) auto

lemma std_find_hit: "std_find xs v < length xs \<Longrightarrow> xs ! std_find xs v = v"
  by (induction xs) auto

lemma remove_erase_filter: "remove_erase xs v = filter (\<lambda>x. x \<noteq> v) xs"
proof (cases "std_find xs v = length xs")
  case True
  with std_find_take [of v xs] show ?thesis
    by (simp add: remove_erase_def std_remove_def erase_range_def)
next
  case False
  let ?f = "std_find xs v"
  from False std_find_le [of xs v] have lt: "?f < length xs" by simp
  obtain ys n where run: "remove_loop v xs ?f (Suc ?f) = (ys, n)"
    by (cases "remove_loop v xs ?f (Suc ?f)")
  from remove_loop_take [OF _ _ run] lt
  have inv: "take n ys = take ?f xs @ filter (\<lambda>x. x \<noteq> v) (drop (Suc ?f) xs)"
    by simp
  have "xs = take ?f xs @ xs ! ?f # drop (Suc ?f) xs"
    using lt by (simp add: Cons_nth_drop_Suc)
  then have "filter (\<lambda>x. x \<noteq> v) xs =
      filter (\<lambda>x. x \<noteq> v) (take ?f xs @ xs ! ?f # drop (Suc ?f) xs)"
    by simp
  also have "\<dots> = take ?f xs @ filter (\<lambda>x. x \<noteq> v) (drop (Suc ?f) xs)"
    using std_find_hit [OF lt] std_find_take [of v xs] by simp
  finally show ?thesis
    using False run inv
    by (simp add: remove_erase_def std_remove_def erase_range_def)
qed

text \<open>
  C9. \<open>std::remove\<close> of a value \<open>v\<close> followed by \<open>erase\<close> from the returned iterator
  to \<open>end()\<close> leaves the elements that differ from \<open>v\<close>, in their original order; the
  demonstrated vector \<open>{1, 2, 3, 2, 4, 5, 2}\<close> with \<open>v = 2\<close> becomes \<open>{1, 3, 4, 5}\<close>.
\<close>

theorem remove_erase_keeps_the_rest:
  "remove_erase xs v = filter (\<lambda>x. x \<noteq> v) xs \<and> remove_erase removeVec 2 = [1, 3, 4, 5]"
  by (simp add: remove_erase_filter removeVec_def)

section \<open>Proofs: numeric.cpp\<close>

lemma signed_take_bit_add_left:
  "signed_take_bit n (signed_take_bit n a + b) = signed_take_bit n (a + (b::int))"
proof -
  have "signed_take_bit n (signed_take_bit n (signed_take_bit n a) + signed_take_bit n b)
      = signed_take_bit n (signed_take_bit n a + b)"
    by (rule signed_take_bit_add)
  then show ?thesis
    by (simp only: signed_take_bit_signed_take_bit min.idem signed_take_bit_add)
qed

lemma sint_int32_range: "int_representable (sint (w :: int32))"
  using sint_ge [of w] sint_lt [of w] by (simp add: int_representable_def)

lemma signed_take_bit_representable:
  "int_representable n \<Longrightarrow> signed_take_bit 31 n = n"
  by (simp add: int_representable_def signed_take_bit_int_eq_self)

text \<open>What the loop computes on every input: the sum, wrapped into the range.\<close>

lemma sint_accumulate:
  "sint (accumulate xs acc) = signed_take_bit 31 (sint acc + sum_list (map sint xs))"
proof (induction xs arbitrary: acc)
  case Nil
  show ?case
    by (simp add: signed_take_bit_representable sint_int32_range)
next
  case (Cons x xs)
  have "sint (accumulate (x # xs) acc) = sint (accumulate xs (acc + x))"
    by simp
  also have "\<dots> = signed_take_bit 31 (sint (acc + x) + sum_list (map sint xs))"
    by (rule Cons.IH)
  also have "sint (acc + x) = signed_take_bit 31 (sint acc + sint x)"
    by (simp only: sint_word_ariths) simp
  also have "signed_take_bit 31 (signed_take_bit 31 (sint acc + sint x) + sum_list (map sint xs))
      = signed_take_bit 31 (sint acc + sint x + sum_list (map sint xs))"
    by (rule signed_take_bit_add_left)
  finally show ?case by (simp only: list.map sum_list.Cons add.assoc)
qed

lemma additions_defined_total:
  "additions_defined acc xs \<Longrightarrow> int_representable acc \<Longrightarrow>
   int_representable (acc + sum_list (map sint xs))"
proof (induction xs arbitrary: acc)
  case Nil
  then show ?case by simp
next
  case (Cons x xs)
  then have "int_representable (acc + sint x + sum_list (map sint xs))"
    by simp
  then show ?case
    by (simp add: add.assoc)
qed

lemma partial_sum_loop_Nil: "partial_sum_loop acc xs = [] \<longleftrightarrow> xs = []"
  by (cases xs) auto

lemma partial_sum_loop_last:
  "xs \<noteq> [] \<Longrightarrow> last (partial_sum_loop acc xs) = accumulate xs acc"
proof (induction xs arbitrary: acc)
  case Nil
  then show ?case by simp
next
  case (Cons x xs)
  then show ?case by (cases xs) auto
qed

lemma partial_sum_loop_length: "length (partial_sum_loop acc xs) = length xs"
  by (induction xs arbitrary: acc) auto

lemma partial_sum_last: "xs \<noteq> [] \<Longrightarrow> last (partial_sum xs) = accumulate xs 0"
  by (cases xs) (auto simp: partial_sum_loop_last partial_sum_loop_Nil)

lemma partialSumVec_eq: "partialSumVec xs = partial_sum xs"
  by (cases xs) (auto simp: partialSumVec_def write_from_begin_def partial_sum_loop_length)

text \<open>
  C3, as the specification states it: \<open>std::accumulate(first, last, 0)\<close> equals the
  mathematical sum of the elements for every vector of \<open>int\<close>. It does not: the
  accumulator is an \<open>int\<close>, and the sum of \<open>{2147483647, 1}\<close> is not one.
\<close>

theorem accumulate_overflow_counterexample:
  "sint (accumulate [2147483647, 1] 0) \<noteq> sum_list (map sint [2147483647, 1 :: int32])"
  by simp

text \<open>
  C3, amended. \<open>std::accumulate(first, last, 0)\<close> returns the mathematical sum of the
  elements of every vector of \<open>int\<close> on which none of its additions leaves the range of
  \<open>int\<close>; for the demonstrated vector \<open>{1, 2, 3, 4, 5}\<close> it returns 15.
\<close>

theorem accumulate_sum_when_defined:
  "(additions_defined 0 xs \<longrightarrow> sint (accumulate xs 0) = sum_list (map sint xs))
   \<and> accumulate myVec 0 = 15"
proof -
  have "sint (accumulate xs 0) = sum_list (map sint xs)" if "additions_defined 0 xs"
  proof -
    have "int_representable (0 + sum_list (map sint xs))"
      using that by (rule additions_defined_total) (simp add: int_representable_def)
    then show ?thesis
      by (simp add: sint_accumulate signed_take_bit_representable)
  qed
  then show ?thesis
    by (simp add: myVec_def)
qed

theorem accumulate_sum_when_defined_witness:
  "additions_defined 0 myVec \<and> sint (accumulate myVec 0) = sum_list (map sint myVec)
   \<and> sum_list (map sint myVec) = 15"
proof -
  have defined: "additions_defined 0 myVec"
    by (simp add: myVec_def int_representable_def)
  moreover have "sum_list (map sint myVec) = 15"
    by (simp add: myVec_def)
  ultimately show ?thesis
    using accumulate_sum_when_defined [of myVec] by simp
qed

text \<open>
  C10. For every non-empty vector of \<open>int\<close> the last element that
  \<open>std::partial_sum\<close> writes into \<open>partialSumVec\<close> is what \<open>std::accumulate\<close>
  returns over the same vector with initial value 0; for \<open>{1, 2, 3, 4, 5}\<close> the partial
  sums are \<open>{1, 3, 6, 10, 15}\<close> and \<open>std::accumulate\<close> returns 15.
\<close>

theorem partial_sum_last_is_accumulate:
  "(xs \<noteq> [] \<longrightarrow> last (partialSumVec xs) = accumulate xs 0)
   \<and> partialSumVec myVec = [1, 3, 6, 10, 15] \<and> accumulate myVec 0 = 15"
proof -
  have "partialSumVec myVec = [1, 3, 6, 10, 15]"
    by (simp add: partialSumVec_eq myVec_def)
  then show ?thesis
    by (simp add: partialSumVec_eq partial_sum_last myVec_def)
qed

theorem partial_sum_last_is_accumulate_witness:
  "myVec \<noteq> [] \<and> last (partialSumVec myVec) = accumulate myVec 0
   \<and> last (partialSumVec myVec) = 15"
proof -
  have nonempty: "myVec \<noteq> []"
    by (simp add: myVec_def)
  with partial_sum_last_is_accumulate [of myVec]
  have "last (partialSumVec myVec) = accumulate myVec 0" and "accumulate myVec 0 = 15"
    by simp_all
  with nonempty show ?thesis
    by simp
qed

section \<open>Proofs: checked element access\<close>

text \<open>When \<open>at\<close> throws: exactly when the position or the key is not there.\<close>

lemma vector_at_throws_iff:
  "snd (vector_at v n) = Inl (Exn Out_of_range None) \<longleftrightarrow> length v \<le> n"
  by (simp add: vector_at_def yield_def raise_def)

lemma string_view_at_throws_iff:
  "snd (string_view_at sv p) = Inl (Exn Out_of_range None) \<longleftrightarrow> length sv \<le> p"
  by (simp add: string_view_at_def yield_def raise_def)

lemma map_at_throws_iff:
  "snd (map_at m k) = Inl (Exn Out_of_range None) \<longleftrightarrow> map_of m k = None"
  by (simp add: map_at_def yield_def raise_def split: option.split)

text \<open>
  A handler for \<open>std::out_of_range\<close> is entered by an exception of that class and
  the statement then completes normally when the handler does.
\<close>

lemma try_catch_out_of_range:
  "try_catch (t, Inl (Exn Out_of_range w)) Out_of_range handler =
     (t @ Catch (Exn Out_of_range w) # fst (handler (Exn Out_of_range w)),
      snd (handler (Exn Out_of_range w)))"
  by (simp add: try_catch_def split: prod.split)

lemma try_catch_no_exception: "try_catch (t, Inr u) c handler = (t, Inr u)"
  by (simp add: try_catch_def)

text \<open>
  C1, as the specification states it: every program that exercises checked access
  performs an \<open>at()\<close> out of range, which throws, is caught, and the program goes on.
  The vector program performs none: its only call of \<open>at\<close> reads index 2 of five
  elements, the call with index 10 being commented out.
\<close>

theorem vector_no_out_of_range_counterexample:
  "\<not> out_of_range_thrown_and_caught vector_element_access"
  by code_simp

text \<open>
  C1, amended. Of the programs that exercise checked access, string_view.cpp performs
  an \<open>at()\<close> out of range (index 10 of a view of six characters): it throws
  \<open>std::out_of_range\<close>, the surrounding handler catches it, and the program runs on to
  its normal end. vector.cpp, array.cpp, map.cpp and unordered_map.cpp call \<open>at()\<close>
  only on an index or key that is present: nothing is thrown, no handler is entered, and
  control goes on past the \<open>try\<close> statement.
\<close>

theorem checked_access_demonstrations:
  "out_of_range_thrown_and_caught string_view_main
   \<and> thrown string_view_main = [Exn Out_of_range None]
   \<and> caught string_view_main = [Exn Out_of_range None]
   \<and> thrown vector_element_access = [] \<and> caught vector_element_access = []
   \<and> completes vector_element_access
   \<and> thrown array_element_access = [] \<and> caught array_element_access = []
   \<and> completes array_element_access
   \<and> thrown map_element_access = [] \<and> caught map_element_access = []
   \<and> completes map_element_access
   \<and> thrown unordered_map_element_access = [] \<and> caught unordered_map_element_access = []
   \<and> completes unordered_map_element_access"
proof -
  have sv: "out_of_range_thrown_and_caught string_view_main"
    "thrown string_view_main = [Exn Out_of_range None]"
    "caught string_view_main = [Exn Out_of_range None]"
    by code_simp+
  have vec: "thrown vector_element_access = []" "caught vector_element_access = []"
    "completes vector_element_access"
    by code_simp+
  have arr: "thrown array_element_access = []" "caught array_element_access = []"
    "completes array_element_access"
    by code_simp+
  have mp: "thrown map_element_access = []" "caught map_element_access = []"
    "completes map_element_access"
    by code_simp+
  have ump: "thrown unordered_map_element_access = []"
    "caught unordered_map_element_access = []" "completes unordered_map_element_access"
    by code_simp+
  from sv vec arr mp ump show ?thesis
    by (intro conjI)
qed

section \<open>Proofs: optional.cpp and future.cpp\<close>

lemma optional_value_throws_iff:
  "snd (optional_value opt) = Inl (Exn Bad_optional_access None) \<longleftrightarrow> opt = None"
  by (simp add: optional_value_def yield_def raise_def split: option.split)

text \<open>
  C6. \<open>value()\<close> on an empty optional throws \<open>std::bad_optional_access\<close>, which the
  handler of the optional demonstration catches, and the program runs on to its normal
  end. \<open>get()\<close> on a future whose promise stored an exception through
  \<open>set_exception\<close> rethrows that exception: in the future demonstration the producer
  stores the \<open>std::runtime_error\<close> thrown by \<open>calculate_with_error\<close>, \<open>get()\<close>
  rethrows it, and the handler for \<open>std::exception\<close> catches it and prints its text.
\<close>

theorem optional_and_future_failures_caught:
  "optional_value None = raise (Exn Bad_optional_access None)
   \<and> thrown optional_main_from_part2 = [Exn Bad_optional_access None]
   \<and> caught optional_main_from_part2 = [Exn Bad_optional_access None]
   \<and> completes optional_main_from_part2
   \<and> future_get (Ready_exception e) = Some (raise e)
   \<and> snd (exception_producer Not_ready) =
       Inr (Ready_exception (Exn Runtime_error (Some ''An error occurred during calculation!'')))
   \<and> map_option thrown promise_exception_demo =
       Some [Exn Runtime_error (Some ''An error occurred during calculation!''),
             Exn Runtime_error (Some ''An error occurred during calculation!'')]
   \<and> map_option caught promise_exception_demo =
       Some [Exn Runtime_error (Some ''An error occurred during calculation!''),
             Exn Runtime_error (Some ''An error occurred during calculation!'')]
   \<and> map_option (\<lambda>c. written_to Cout (fst c)) promise_exception_demo =
       Some [Str ''  Task started, but will throw an exception.\<newline>'',
             Str ''  Caught expected exception from promise: '',
             Str ''An error occurred during calculation!'', Str ''\<newline>\<newline>'']
   \<and> map_option completes promise_exception_demo = Some True"
proof -
  have opt: "thrown optional_main_from_part2 = [Exn Bad_optional_access None]"
    "caught optional_main_from_part2 = [Exn Bad_optional_access None]"
    "completes optional_main_from_part2"
    by code_simp+
  have producer: "snd (exception_producer Not_ready) =
      Inr (Ready_exception (Exn Runtime_error (Some ''An error occurred during calculation!'')))"
    by code_simp
  have demo: "map_option thrown promise_exception_demo =
       Some [Exn Runtime_error (Some ''An error occurred during calculation!''),
             Exn Runtime_error (Some ''An error occurred during calculation!'')]"
    "map_option caught promise_exception_demo =
       Some [Exn Runtime_error (Some ''An error occurred during calculation!''),
             Exn Runtime_error (Some ''An error occurred during calculation!'')]"
    "map_option (\<lambda>c. written_to Cout (fst c)) promise_exception_demo =
       Some [Str ''  Task started, but will throw an exception.\<newline>'',
             Str ''  Caught expected exception from promise: '',
             Str ''An error occurred during calculation!'', Str ''\<newline>\<newline>'']"
    "map_option completes promise_exception_demo = Some True"
    by code_simp+
  have general: "optional_value None = raise (Exn Bad_optional_access None)"
    "future_get (Ready_exception e) = Some (raise e)"
    by (simp_all add: optional_value_def future_get_def)
  from general opt producer demo show ?thesis
    by (intro conjI)
qed

section \<open>Proofs: fstream.cpp\<close>

subsection \<open>The bytes of an \<open>int\<close>\<close>

lemma four_bytes:
  assumes "u < 4294967296"
  shows "u mod 256 + 256 * (u div 256 mod 256) + 65536 * (u div 65536 mod 256)
         + 16777216 * (u div 16777216 mod 256) = (u::nat)"
proof -
  from assms have "u div 16777216 < 256" by simp
  then have hi: "u div 16777216 mod 256 = u div 16777216" by simp
  have "u div 65536 = 256 * (u div 16777216) + u div 65536 mod 256"
    using div_mult_mod_eq [of "u div 65536" 256]
    by (simp add: div_mult2_eq [symmetric] mult.commute)
  moreover have "u div 256 = 256 * (u div 65536) + u div 256 mod 256"
    using div_mult_mod_eq [of "u div 256" 256]
    by (simp add: div_mult2_eq [symmetric] mult.commute)
  moreover have "u = 256 * (u div 256) + u mod 256"
    by simp
  ultimately show ?thesis
    using hi by linarith
qed

lemma object_bytes_nth:
  "object_bytes w ! 0 = char_of (unat w)"
  "object_bytes w ! 1 = char_of (unat w div 256)"
  "object_bytes w ! 2 = char_of (unat w div 65536)"
  "object_bytes w ! 3 = char_of (unat w div 16777216)"
  by (simp_all add: object_bytes_def Let_def)

lemma length_object_bytes: "length (object_bytes w) = 4"
  by (simp add: object_bytes_def Let_def)

text \<open>Four bytes stored and read back make the \<open>int\<close> they came from.\<close>

lemma value_of_object_bytes: "value_of_bytes (object_bytes w) = w"
proof -
  have small: "unat w < 4294967296"
    using unsigned_less [of w, where ?'a = nat] by simp
  have "(of_char (object_bytes w ! 0) :: nat) + 256 * of_char (object_bytes w ! 1)
      + 65536 * of_char (object_bytes w ! 2) + 16777216 * of_char (object_bytes w ! 3)
      = unat w mod 256 + 256 * (unat w div 256 mod 256) + 65536 * (unat w div 65536 mod 256)
        + 16777216 * (unat w div 16777216 mod 256)"
    by (simp only: object_bytes_nth of_char_of)
  also have "\<dots> = unat w"
    by (rule four_bytes [OF small])
  finally have "value_of_bytes (object_bytes w) = word_of_nat (unat w)"
    by (simp only: value_of_bytes_def)
  then show ?thesis
    by simp
qed



subsection \<open>Streams that opened and streams that did not\<close>

lemma stream_simps:
  "is_open (opened_on name bytes out)" "\<not> is_open (not_opened name)"
  "for_output (opened_on name bytes out) = out" "\<not> for_output (not_opened name)"
  "\<not> for_output (opened_on_directory name)"
  "is_open (st\<lparr>pos := n\<rparr>) = is_open st" "for_output (st\<lparr>pos := n\<rparr>) = for_output st"
  "path (opened_on name bytes out) = name" "data (opened_on name bytes out) = bytes"
  "path (st\<lparr>pos := n\<rparr>) = path st" "data (st\<lparr>pos := n\<rparr>) = data st"
  "\<not> unreadable (opened_on name bytes out)"
  by (simp_all add: opened_on_def not_opened_def opened_on_directory_def)

lemma put_bytes_not_opened: "put_bytes (not_opened name) bytes = not_opened name"
  by (simp add: put_bytes_def not_opened_def good_def)

lemma flush_not_opened: "flush fs (not_opened name) = fs"
  by (simp add: flush_def not_opened_def)

lemma close_not_opened: "close fs (not_opened name) = fs"
  by (simp add: close_def flush_not_opened)

lemma put_bytes_first:
  "put_bytes (opened_on name [] out) extra = (opened_on name extra out)\<lparr>pos := length extra\<rparr>"
  by (simp add: put_bytes_def opened_on_def good_def)


lemma close_input: "\<not> for_output st \<Longrightarrow> close fs st = fs"
  by (simp add: close_def flush_def)



subsection \<open>Opening for writing\<close>

lemma written_simps:
  "entry_of (written fs name bytes) name =
     Some (Regular bytes (readable_once_written fs name) (writable_once_written fs name))"
  "other \<noteq> name \<Longrightarrow> entry_of (written fs name bytes) other = entry_of fs other"
  "policy (written fs name bytes) = policy fs"
  "creatable (written fs name bytes) = creatable fs"
  "new_readable (written fs name bytes) = new_readable fs"
  "new_writable (written fs name bytes) = new_writable fs"
  by (simp_all add: written_def policy_def)

lemma open_ofstream_opens:
  "opens_for_writing fs name \<Longrightarrow>
   open_ofstream fs name = (written fs name [], opened_on name [] True)"
  by (auto simp: open_ofstream_def opens_for_writing_def written_def created_def
      readable_once_written_def writable_once_written_def split: option.splits node.splits)

lemma open_ofstream_fails:
  "\<not> opens_for_writing fs name \<Longrightarrow> open_ofstream fs name = (fs, not_opened name)"
  by (auto simp: open_ofstream_def opens_for_writing_def split: option.splits node.splits)




lemma store_written: "store (written fs name old) name bytes = written fs name bytes"
  by (simp add: store_def written_def)

lemma close_written:
  "close (written fs name old) ((opened_on name bytes True)\<lparr>pos := n\<rparr>) = written fs name bytes"
  by (simp add: close_def flush_def stream_simps store_written)


lemma open_ifstream_written:
  "open_ifstream (written fs name bytes) name =
     (if readable_once_written fs name then opened_on name bytes False else not_opened name)"
  by (simp add: open_ifstream_def written_def)


lemma read_whole:
  "length bytes = n \<Longrightarrow>
   read (opened_on name bytes out) n = ((opened_on name bytes out)\<lparr>pos := n\<rparr>, bytes)"
  by (simp add: read_def opened_on_def good_def Let_def)

lemma read_not_opened: "read (not_opened name) n = (not_opened name, [])"
  by (simp add: read_def not_opened_def good_def)


text \<open>
  \<open>example_read_write\<close> where binary.dat opens for writing and the file can then be
  read, and where the directory holds no binary.dat and takes none.
\<close>

lemma read_write_round_trip:
  assumes "opens_for_writing fs ''binary.dat''" and "readable_once_written fs ''binary.dat''"
  shows "read_write number fs =
    (cout [Str ''Recovered number: '', Num (sint number), endl],
     written fs ''binary.dat'' (object_bytes number))"
proof -
  have stored: "read_write number fs =
      (case read (opened_on ''binary.dat'' (object_bytes number) False) 4 of
         (inp1, got) \<Rightarrow>
           (cout [Str ''Recovered number: '',
                  Num (sint (value_of_bytes (got @ drop (length got) (object_bytes 0)))), endl],
            close (written fs ''binary.dat'' (object_bytes number)) inp1))"
    by (simp add: read_write_def open_ofstream_opens [OF assms(1)] put_bytes_first close_written
        open_ifstream_written assms(2) Let_def)
  show ?thesis
    by (simp add: stored read_whole length_object_bytes value_of_object_bytes close_input
        stream_simps)
qed

lemma read_write_nothing_opens:
  assumes "entry_of fs ''binary.dat'' = None" and "\<not> creatable fs"
  shows "read_write number fs = (cout [Str ''Recovered number: '', Num 0, endl], fs)"
proof -
  from assms have "\<not> opens_for_writing fs ''binary.dat''"
    by (simp add: opens_for_writing_def)
  moreover from assms have "open_ifstream fs ''binary.dat'' = not_opened ''binary.dat''"
    by (simp add: open_ifstream_def)
  ultimately show ?thesis
    using value_of_object_bytes [of 0]
    by (simp add: read_write_def open_ofstream_fails put_bytes_not_opened close_not_opened
        read_not_opened Let_def)
qed

text \<open>
  C4, as the specification states it: the example writes 12345 to binary.dat and reads
  12345 back. It tests neither stream, and in a directory that has no binary.dat and
  takes no new file nothing is written and nothing is read: \<open>recovered\<close> keeps its
  initial value and \<open>Recovered number: 0\<close> is printed.
\<close>

theorem binary_round_trip_counterexample:
  "fst (example_read_write locked_directory) = cout [Str ''Recovered number: '', Num 0, endl]
   \<and> fst (example_read_write locked_directory) \<noteq> cout [Str ''Recovered number: '', Num 12345, endl]"
  by (simp add: example_read_write_def read_write_nothing_opens locked_directory_def cout_def)

text \<open>
  C4, amended. Where binary.dat, absent or a regular file, can be opened for writing and,
  once written, for reading, \<open>example_read_write\<close> stores the \<open>sizeof(int)\<close> = 4
  raw bytes of the integer 12345 in binary.dat, and the four bytes read back make exactly
  12345, so that \<open>Recovered number: 12345\<close> is printed; the same round trip is the
  identity on every \<open>int\<close> stored this way.
\<close>

theorem binary_round_trip:
  "length (object_bytes number) = 4
   \<and> value_of_bytes (object_bytes number) = number
   \<and> (opens_for_writing fs ''binary.dat'' \<and> readable_once_written fs ''binary.dat'' \<longrightarrow>
        entry_of (snd (read_write number fs)) ''binary.dat''
          = Some (Regular (object_bytes number) True (writable_once_written fs ''binary.dat''))
        \<and> fst (read_write number fs) = cout [Str ''Recovered number: '', Num (sint number), endl]
        \<and> fst (example_read_write fs) = cout [Str ''Recovered number: '', Num 12345, endl])"
  by (simp add: example_read_write_def read_write_round_trip length_object_bytes
      value_of_object_bytes written_simps)

theorem binary_round_trip_witness:
  "opens_for_writing empty_directory ''binary.dat''
   \<and> readable_once_written empty_directory ''binary.dat''
   \<and> fst (example_read_write empty_directory) =
       [Write Cout (Str ''Recovered number: ''), Write Cout (Num 12345),
        Write Cout (Str ''\<newline>'')]"
proof -
  have allowed: "opens_for_writing empty_directory ''binary.dat''"
    "readable_once_written empty_directory ''binary.dat''"
    by (simp_all add: empty_directory_def opens_for_writing_def readable_once_written_def)
  with binary_round_trip [of 12345 empty_directory]
  have "fst (example_read_write empty_directory) = cout [Str ''Recovered number: '', Num 12345, endl]"
    by simp
  with allowed show ?thesis
    by (simp add: cout_def endl_def)
qed


subsection \<open>Directories that differ in scratch files\<close>






















subsection \<open>Reading leaves the directory as it is\<close>






subsection \<open>An example that writes a file and then reads it\<close>




lemma unchanged_leaves:
  assumes "\<And>fs. snd (e fs) = fs"
  shows "leaves other e"
  by (simp add: leaves_def assms)

subsection \<open>The examples, one by one\<close>















































text \<open>
  \<open>example_seek_tell\<close>: where seek.txt opens for writing and can then be opened for
  both directions, every step is determined; in every other case the second stream does
  not open, and what is printed of \<open>ch\<close> is what the run finds there.
\<close>

lemma close_opened:
  "entry_of fs name = Some (Regular old r w) \<Longrightarrow>
   close fs ((opened_on name bytes True)\<lparr>pos := n, eofbit := b\<rparr>) =
   fs\<lparr>entry_of := (entry_of fs)(name \<mapsto> Regular bytes r w)\<rparr>"
  by (simp add: close_def flush_def store_def opened_on_def)











subsection \<open>The whole of \<open>main\<close>\<close>

















subsection \<open>Two runs where new files are read-only\<close>




















text \<open>
  What the claim says of two runs in succession fails of other programs as well, for a
  reason that is no state kept in files: chrono.cpp prints the reading of the system
  clock, and a run that starts 200 milliseconds later prints a later time.
\<close>

lemma chrono_part3_later_reading:
  "chrono_part3 1700000000200000000 \<noteq> chrono_part3 1700000000000000000"
  by (simp add: chrono_part3_def cout_def Let_def)

section \<open>Proofs: \<open>std::call_once\<close> in mutex.cpp\<close>

lemma inside_not_before: "inside at \<Longrightarrow> before_call at \<Longrightarrow> False"
  by (cases at) simp_all

lemma calls_begun_append: "calls_begun (hs @ hs') = calls_begun hs + calls_begun hs'"
  by (induction hs rule: calls_begun.induct) auto

lemma start_agrees: "flag_agrees part5_start \<and> main_agrees part5_start"
  by (simp add: flag_agrees_def main_agrees_def part5_start_def executions_def)

lemma main_step_agrees:
  assumes "main_step c = Some c'" "flag_agrees c" "main_agrees c"
  shows "flag_agrees c' \<and> main_agrees c' \<and> Suc (steps_left c') = steps_left c"
  using assms
  by (cases "main_thread c")
     (auto simp: flag_agrees_def main_agrees_def steps_left_def executions_def calls_begun_append
           split: if_splits once_flag.splits)

lemma task_step_cases:
  assumes "task_step t f at = Some (f', at', hs)"
  obtains
    (enter) "f = Not_called" "at = Line_153" "f' = In_progress" "at' = Line_39" "hs = [Call_begins t]"
  | (pass) "f = Called" "at = Line_153" "f' = Called" "at' = Line_154_text" "hs = []"
  | (leave) "at = Line_42" "f' = Called" "at' = Line_154_text" "hs = [Call_returns t]"
  | (other) "f' = f" "calls_begun hs = 0" "at \<noteq> Line_153" "at \<noteq> Line_42" "at \<noteq> Not_started"
      "at \<noteq> Finished" "inside at' = (inside at \<and> at \<noteq> Line_42)" "\<not> before_call at'" "\<not> before_call at" 
      "Suc (steps_of_task at') = steps_of_task at" "at' \<noteq> Not_started"
  using assms by (cases "(t, f, at)" rule: task_step.cases) auto

lemma once1_step_agrees:
  assumes "step T_once1 c = Some c'" "flag_agrees c" "main_agrees c"
  shows "flag_agrees c' \<and> main_agrees c' \<and> Suc (steps_left c') = steps_left c"
proof -
  from assms(1) obtain f at hs where
    task: "task_step T_once1 (flag c) (t_once1 c) = Some (f, at, hs)"
    and c': "c' = c\<lparr>flag := f, t_once1 := at, happened := happened c @ hs\<rparr>"
    by (auto split: option.splits)
  from task show ?thesis
  proof (cases rule: task_step_cases)
    case enter
    with assms(2,3) c' show ?thesis
      by (auto simp: flag_agrees_def main_agrees_def steps_left_def executions_def
          calls_begun_append split: main_at.splits)
  next
    case pass
    with assms(2,3) c' show ?thesis
      by (auto simp: flag_agrees_def main_agrees_def steps_left_def executions_def
          calls_begun_append split: main_at.splits)
  next
    case leave
    with assms(2,3) c' show ?thesis
      by (auto simp: flag_agrees_def main_agrees_def steps_left_def executions_def
          calls_begun_append dest: inside_not_before split: main_at.splits once_flag.splits)
  next
    case other
    with assms(2,3) c' show ?thesis
      by (auto simp: flag_agrees_def main_agrees_def steps_left_def executions_def
          calls_begun_append dest: inside_not_before split: main_at.splits once_flag.splits)
  qed
qed

lemma once2_step_agrees:
  assumes "step T_once2 c = Some c'" "flag_agrees c" "main_agrees c"
  shows "flag_agrees c' \<and> main_agrees c' \<and> Suc (steps_left c') = steps_left c"
proof -
  from assms(1) obtain f at hs where
    task: "task_step T_once2 (flag c) (t_once2 c) = Some (f, at, hs)"
    and c': "c' = c\<lparr>flag := f, t_once2 := at, happened := happened c @ hs\<rparr>"
    by (auto split: option.splits)
  from task show ?thesis
  proof (cases rule: task_step_cases)
    case enter
    with assms(2,3) c' show ?thesis
      by (auto simp: flag_agrees_def main_agrees_def steps_left_def executions_def
          calls_begun_append split: main_at.splits)
  next
    case pass
    with assms(2,3) c' show ?thesis
      by (auto simp: flag_agrees_def main_agrees_def steps_left_def executions_def
          calls_begun_append split: main_at.splits)
  next
    case leave
    with assms(2,3) c' show ?thesis
      by (auto simp: flag_agrees_def main_agrees_def steps_left_def executions_def
          calls_begun_append dest: inside_not_before split: main_at.splits once_flag.splits)
  next
    case other
    with assms(2,3) c' show ?thesis
      by (auto simp: flag_agrees_def main_agrees_def steps_left_def executions_def
          calls_begun_append dest: inside_not_before split: main_at.splits once_flag.splits)
  qed
qed

lemma step_agrees:
  assumes "step t c = Some c'" "flag_agrees c" "main_agrees c"
  shows "flag_agrees c' \<and> main_agrees c' \<and> Suc (steps_left c') = steps_left c"
proof (cases t)
  case Main_thread
  with assms main_step_agrees [of c c'] show ?thesis by simp
next
  case T_once1
  with assms once1_step_agrees [of c c'] show ?thesis by simp
next
  case T_once2
  with assms once2_step_agrees [of c c'] show ?thesis by simp
qed

lemma run_agrees:
  "run sched c = Some c' \<Longrightarrow> flag_agrees c \<Longrightarrow> main_agrees c \<Longrightarrow>
   flag_agrees c' \<and> main_agrees c' \<and> length sched + steps_left c' = steps_left c"
proof (induction sched arbitrary: c)
  case Nil
  then show ?case by simp
next
  case (Cons t ts)
  from Cons.prems(1) obtain d where first: "step t c = Some d" and rest: "run ts d = Some c'"
    by (auto split: option.splits)
  from step_agrees [OF first Cons.prems(2,3)]
  have d: "flag_agrees d" "main_agrees d" "Suc (steps_left d) = steps_left c"
    by simp_all
  from Cons.IH [OF rest d(1,2)] d(3) show ?case
    by simp
qed

lemma executions_at_most_one: "flag_agrees c \<Longrightarrow> executions c \<le> 1"
  by (auto simp: flag_agrees_def split: once_flag.splits)

lemma finished_called:
  "flag_agrees c \<Longrightarrow> t_once1 c = Finished \<Longrightarrow> flag c = Called \<and> executions c = 1"
  by (auto simp: flag_agrees_def split: once_flag.splits)

lemma some_thread_can_move:
  assumes "flag_agrees c" "main_agrees c" "main_thread c \<noteq> Line_163"
  shows "can_move c \<noteq> []"
proof (cases "step Main_thread c = None")
  case False
  then show ?thesis by (simp add: can_move_def)
next
  case True
  then consider (j1) "main_thread c = Line_160" "t_once1 c \<noteq> Finished"
    | (j2) "main_thread c = Line_161" "t_once2 c \<noteq> Finished"
    using assms(3) by (cases "main_thread c") (auto split: if_splits)
  then show ?thesis
  proof cases
    case j1
    show ?thesis
    proof (cases "step T_once1 c = None")
      case False
      then show ?thesis by (simp add: can_move_def)
    next
      case True
      with j1 assms(1,2) have "step T_once2 c \<noteq> None"
        by (cases "t_once1 c"; cases "flag c"; cases "t_once2 c")
           (auto simp: flag_agrees_def main_agrees_def)
      then show ?thesis by (simp add: can_move_def)
    qed
  next
    case j2
    show ?thesis
    proof (cases "step T_once2 c = None")
      case False
      then show ?thesis by (simp add: can_move_def)
    next
      case True
      with j2 assms(1,2) have "step T_once1 c \<noteq> None"
        by (cases "t_once1 c"; cases "flag c"; cases "t_once2 c")
           (auto simp: flag_agrees_def main_agrees_def)
      then show ?thesis by (simp add: can_move_def)
    qed
  qed
qed

lemma steps_left_start: "steps_left part5_start = 18"
  by (simp add: steps_left_def part5_start_def)

text \<open>
  C8. In part 5 of mutex.cpp two threads each call \<open>std::call_once\<close> on the same
  \<open>std::once_flag\<close> with \<open>expensive_initialization\<close>. Whatever the interleaving
  of the main thread and the two threads, \<open>expensive_initialization\<close> is called at most
  once while the run goes on and exactly once in total when \<open>main\<close> returns, both
  threads having finished; and every interleaving does come to that end: as long as
  \<open>main\<close> has not returned some thread can move, and the run is over after 18 steps.
\<close>

theorem call_once_calls_exactly_once:
  "run sched part5_start = Some c \<longrightarrow>
     executions c \<le> 1
     \<and> (main_thread c = Line_163 \<longrightarrow>
          executions c = 1 \<and> t_once1 c = Finished \<and> t_once2 c = Finished \<and> length sched = 18)
     \<and> (main_thread c \<noteq> Line_163 \<longrightarrow> can_move c \<noteq> [] \<and> length sched < 18)"
proof
  assume reached: "run sched part5_start = Some c"
  from run_agrees [OF reached] start_agrees
  have c: "flag_agrees c" "main_agrees c" "length sched + steps_left c = 18"
    by (simp_all add: steps_left_start)
  have "executions c \<le> 1"
    using c(1) by (rule executions_at_most_one)
  moreover have "executions c = 1 \<and> t_once1 c = Finished \<and> t_once2 c = Finished
      \<and> length sched = 18" if "main_thread c = Line_163"
  proof -
    from that c(2) have fin: "t_once1 c = Finished" "t_once2 c = Finished"
      by (simp_all add: main_agrees_def)
    with finished_called [OF c(1)] c(3) that show ?thesis
      by (simp add: steps_left_def)
  qed
  moreover have "can_move c \<noteq> [] \<and> length sched < 18" if "main_thread c \<noteq> Line_163"
  proof -
    from that have "0 < steps_of_main (main_thread c)"
      by (cases "main_thread c") simp_all
    with c(3) have "length sched < 18"
      by (simp add: steps_left_def)
    with some_thread_can_move [OF c(1,2) that] show ?thesis
      by simp
  qed
  ultimately show "executions c \<le> 1
     \<and> (main_thread c = Line_163 \<longrightarrow>
          executions c = 1 \<and> t_once1 c = Finished \<and> t_once2 c = Finished \<and> length sched = 18)
     \<and> (main_thread c \<noteq> Line_163 \<longrightarrow> can_move c \<noteq> [] \<and> length sched < 18)"
    by simp
qed

theorem call_once_calls_exactly_once_witness:
  "map_option (\<lambda>c. (main_thread c, executions c, t_once1 c, t_once2 c))
     (run second_thread_first part5_start) = Some (Line_163, 1, Finished, Finished)
   \<and> length second_thread_first = 18"
proof -
  let ?c = "\<lparr>flag = Called, main_thread = Line_163, t_once1 = Finished, t_once2 = Finished,
     happened =
       [Inserts Main_thread
          (Text ''--- Part 5: std::call_once (Single-time Execution) ---\<newline>''),
        Inserts Main_thread (Text ''  Demonstrating std::call_once...\<newline>''),
        Call_begins T_once2,
        Inserts T_once2 (Text ''    Expensive initialization started...\<newline>''),
        Inserts T_once2 (Text ''    Expensive initialization finished.\<newline>''),
        Call_returns T_once2, Inserts T_once1 (Text ''  Thread ''),
        Inserts T_once2 (Text ''  Thread ''),
        Inserts T_once1 (Id_of T_once1), Inserts T_once2 (Id_of T_once2),
        Inserts T_once1 (Text '' has finished its task.\<newline>''),
        Inserts T_once2 (Text '' has finished its task.\<newline>'')]\<rparr>"
  have reached: "run second_thread_first part5_start = Some ?c"
    by (simp add: second_thread_first_def part5_start_def)
  with call_once_calls_exactly_once [of second_thread_first ?c]
  have "executions ?c = 1 \<and> t_once1 ?c = Finished \<and> t_once2 ?c = Finished
      \<and> length second_thread_first = 18"
    by simp
  with reached show ?thesis
    by simp
qed

text \<open>
  The other order: \<open>t_once1\<close> calls \<open>expensive_initialization\<close>, and \<open>t_once2\<close>,
  started meanwhile, waits in \<open>std::call_once\<close> and then passes. While \<open>t_once1\<close>
  is inside, \<open>t_once2\<close> waits and the main thread waits in \<open>join\<close>, \<open>t_once1\<close>
  alone can move.
\<close>

lemma first_thread_first_run:
  "map_option (\<lambda>c. (main_thread c, executions c)) (run first_thread_first part5_start)
     = Some (Line_163, 1)
   \<and> map_option can_move
       (run [Main_thread, Main_thread, Main_thread, T_once1, Main_thread] part5_start)
       = Some [T_once1]"
  by (simp add: first_thread_first_def part5_start_def executions_def can_move_def)


end
